theory Spec2Isabelle
  imports Complex_Main "HOL-Library.Log_Nat"
begin

section \<open>Numbers\<close>

text \<open>
  A JavaScript \<open>number\<close> is an IEEE 754 double: a finite value (a rational here, the
  two zeros taken as one), an infinity, or \<open>NaN\<close>. Every arithmetic operation gives the
  double nearest to the exact result, ties going to the even significand; \<open>fl\<close> is
  that rounding, to 53 significant bits with exponents down to the subnormal range, and
  \<open>to_double\<close> adds the overflow to an infinity.
\<close>

datatype num = Num rat | PosInf | NegInf | NaN

text \<open>The exponent of a positive rational: the \<open>k\<close> with \<open>2 ^ k \<le> x < 2 ^ (k + 1)\<close>.\<close>

definition ilog2 :: "rat \<Rightarrow> int" where
  "ilog2 x =
     (case quotient_of x of (p, q) \<Rightarrow>
        (let k = bitlen p - bitlen q in if 2 powi k \<le> x then k else k - 1))"

definition round_half_even :: "rat \<Rightarrow> int" where
  "round_half_even y =
     (let f = \<lfloor>y\<rfloor>; d = y - of_int f
      in if d < 1 / 2 then f else if 1 / 2 < d then f + 1 else if even f then f else f + 1)"

definition fl :: "rat \<Rightarrow> rat" where
  "fl x =
     (if x = 0 then 0
      else (let e = max (ilog2 \<bar>x\<bar> - 52) (- 1074);
                m = round_half_even (\<bar>x\<bar> / 2 powi e)
            in sgn x * of_int m * 2 powi e))"

text \<open>
  The least magnitude that rounds to an infinity: halfway between the largest double and
  \<open>2 ^ 1024\<close>.
\<close>

definition overflow_bound :: rat where
  "overflow_bound = 2 ^ 1024 - 2 ^ 970"

definition to_double :: "rat \<Rightarrow> num" where
  "to_double x =
     (if overflow_bound \<le> x then PosInf
      else if x \<le> - overflow_bound then NegInf
      else Num (fl x))"

fun num_add :: "num \<Rightarrow> num \<Rightarrow> num" where
  "num_add (Num a) (Num b) = to_double (a + b)"
| "num_add NaN _ = NaN"
| "num_add _ NaN = NaN"
| "num_add PosInf NegInf = NaN"
| "num_add NegInf PosInf = NaN"
| "num_add PosInf _ = PosInf"
| "num_add NegInf _ = NegInf"
| "num_add _ PosInf = PosInf"
| "num_add _ NegInf = NegInf"

fun num_neg :: "num \<Rightarrow> num" where
  "num_neg (Num a) = Num (- a)"
| "num_neg PosInf = NegInf"
| "num_neg NegInf = PosInf"
| "num_neg NaN = NaN"

definition num_sub :: "num \<Rightarrow> num \<Rightarrow> num" where
  "num_sub a b = num_add a (num_neg b)"

text \<open>
  Division. A zero divisor is taken as \<open>+0\<close>; the one division of the program divides
  by the constant \<open>1000 * 60 * 60\<close>.
\<close>

fun num_div :: "num \<Rightarrow> num \<Rightarrow> num" where
  "num_div (Num a) (Num b) =
     (if b = 0 then (if a = 0 then NaN else if 0 < a then PosInf else NegInf)
      else to_double (a / b))"
| "num_div NaN _ = NaN"
| "num_div _ NaN = NaN"
| "num_div (Num a) _ = Num 0"
| "num_div PosInf (Num b) = (if 0 \<le> b then PosInf else NegInf)"
| "num_div NegInf (Num b) = (if 0 \<le> b then NegInf else PosInf)"
| "num_div _ _ = NaN"

section \<open>Wall-clock times and the duration of an entry\<close>

definition digit_val :: "char \<Rightarrow> nat option" where
  "digit_val c =
     (let n = (of_char c :: nat) in if 48 \<le> n \<and> n \<le> 57 then Some (n - 48) else None)"

definition two_digits :: "char \<Rightarrow> char \<Rightarrow> nat option" where
  "two_digits a b =
     (case (digit_val a, digit_val b) of
        (Some x, Some y) \<Rightarrow> Some (10 * x + y)
      | _ \<Rightarrow> None)"

text \<open>
  \<open>validateTime\<close> of the date library: hour 24 is accepted with zero minutes and
  seconds only, otherwise hours are below 25 and minutes and seconds below 60.
\<close>

definition validateTime :: "nat \<Rightarrow> nat \<Rightarrow> nat \<Rightarrow> bool" where
  "validateTime hours minutes seconds =
     (if hours = 24 then minutes = 0 \<and> seconds = 0
      else seconds < 60 \<and> minutes < 60 \<and> hours < 25)"

text \<open>
  Modelled from the spec: \<open>parseISO\<close> belongs to the date library the component
  imports and is not among the sources. The spec reads the two times "on an arbitrary
  common reference date"; the model covers the strings \<open>calculateHours\<close> builds from an
  \<open>HH:MM\<close> input, that is \<open>2000-01-01THH:MM:SS\<close> with two-digit fields and no zone
  suffix, and gives the milliseconds of that local wall-clock time, counted from
  \<open>base\<close>, the epoch milliseconds of local midnight of the reference date. A string of
  another shape is an invalid date here (\<open>None\<close>, whose \<open>getTime()\<close> is \<open>NaN\<close>); no
  statement below depends on such a string.
\<close>

definition parseTime :: "string \<Rightarrow> nat option" where
  "parseTime t =
     (case t of
        [h1, h2, c1, m1, m2, c2, s1, s2] \<Rightarrow>
          (if c1 = CHR '':'' \<and> c2 = CHR '':'' then
             (case (two_digits h1 h2, two_digits m1 m2, two_digits s1 s2) of
                (Some hours, Some minutes, Some seconds) \<Rightarrow>
                  (if validateTime hours minutes seconds
                   then Some (hours * 3600000 + minutes * 60000 + seconds * 1000)
                   else None)
              | _ \<Rightarrow> None)
           else None)
      | _ \<Rightarrow> None)"

definition parseISO :: "int \<Rightarrow> string \<Rightarrow> int option" where
  "parseISO base s =
     (if take 11 s = ''2000-01-01T''
      then map_option (\<lambda>t. base + int t) (parseTime (drop 11 s))
      else None)"

text \<open>
  \<open>getTime()\<close>: the timestamp of a valid date, an integer number of milliseconds (a
  \<open>Date\<close> holds none beyond 8.64e15 in magnitude, so each is a double), and \<open>NaN\<close> for
  an invalid date.
\<close>

definition getTime :: "int option \<Rightarrow> num" where
  "getTime d = (case d of Some t \<Rightarrow> Num (of_int t) | None \<Rightarrow> NaN)"

text \<open>
  \<open>calculateHours\<close> of the time-tracking component: both times are parsed on
  2000-01-01 and the difference of the timestamps is divided by the milliseconds of an
  hour.
\<close>

definition calculateHours :: "int \<Rightarrow> string \<Rightarrow> string \<Rightarrow> num" where
  "calculateHours base startTime endTime =
     (let start = parseISO base (''2000-01-01T'' @ startTime @ '':00'');
          end = parseISO base (''2000-01-01T'' @ endTime @ '':00'')
      in num_div (num_sub (getTime end) (getTime start)) (Num (1000 * 60 * 60)))"

text \<open>The \<open>HH:MM\<close> rendering of a wall-clock time, as a time input field delivers it.\<close>

definition digit_char :: "nat \<Rightarrow> char" where
  "digit_char d = char_of (48 + d)"

definition hhmm :: "nat \<Rightarrow> nat \<Rightarrow> string" where
  "hhmm h m =
     [digit_char (h div 10), digit_char (h mod 10), CHR '':'',
      digit_char (m div 10), digit_char (m mod 10)]"

lemma digit_val_digit_char: "d < 10 \<Longrightarrow> digit_val (digit_char d) = Some d"
  by (simp add: digit_val_def digit_char_def Let_def)

lemma two_digits_render:
  assumes "n < 100"
  shows "two_digits (digit_char (n div 10)) (digit_char (n mod 10)) = Some n"
proof -
  have "n div 10 < 10" using assms by simp
  moreover have "n mod 10 < 10" by simp
  ultimately show ?thesis
    by (simp add: two_digits_def digit_val_digit_char)
qed

lemma two_digits_00: "two_digits CHR ''0'' CHR ''0'' = Some 0"
  by (simp add: two_digits_def digit_val_def)

lemma parseISO_hhmm:
  assumes "h < 24" and "m < 60"
  shows "parseISO base (''2000-01-01T'' @ hhmm h m @ '':00'')
           = Some (base + int (h * 3600000 + m * 60000))"
proof -
  have h: "two_digits (digit_char (h div 10)) (digit_char (h mod 10)) = Some h"
    using assms by (intro two_digits_render) simp
  have m: "two_digits (digit_char (m div 10)) (digit_char (m mod 10)) = Some m"
    using assms by (intro two_digits_render) simp
  have "parseTime (hhmm h m @ '':00'') = Some (h * 3600000 + m * 60000)"
    using assms by (simp add: parseTime_def hhmm_def h m two_digits_00 validateTime_def)
  then show ?thesis
    by (simp add: parseISO_def)
qed

lemma round_half_even_int: "round_half_even (of_int n) = n"
  by (simp add: round_half_even_def)

lemma round_half_even_nonneg: "0 \<le> y \<Longrightarrow> 0 \<le> round_half_even y"
  by (auto simp add: round_half_even_def Let_def)

lemma round_half_even_error: "\<bar>of_int (round_half_even y) - y\<bar> \<le> 1 / 2"
proof -
  define f where "f = \<lfloor>y\<rfloor>"
  define d where "d = y - of_int f"
  have d: "0 \<le> d" "d < 1"
    unfolding d_def f_def by linarith+
  have y: "y = of_int f + d"
    by (simp add: d_def)
  have r: "round_half_even y
             = (if d < 1 / 2 then f else if 1 / 2 < d then f + 1 else if even f then f else f + 1)"
    by (simp add: round_half_even_def Let_def f_def d_def)
  consider "d < 1 / 2" | "1 / 2 < d" | "d = 1 / 2"
    by linarith
  then show ?thesis
  proof cases
    case 1
    then have "round_half_even y = f" by (simp add: r)
    then show ?thesis using 1 d by (simp add: d_def)
  next
    case 2
    then have "round_half_even y = f + 1" by (simp add: r)
    then show ?thesis using 2 d by (simp add: d_def)
  next
    case 3
    then have "round_half_even y = f \<or> round_half_even y = f + 1" by (simp add: r)
    then show ?thesis using 3 by (auto simp add: d_def)
  qed
qed

lemma ilog2_int_le:
  assumes "0 < n" and "n < 2 ^ 53"
  shows "ilog2 (of_int n) \<le> 52"
proof -
  have b: "bitlen n \<le> 53"
    using assms(2) by (simp add: bitlen_le_iff_power)
  have one: "bitlen 1 = 1"
    by (simp add: bitlen_alt_def)
  have "ilog2 (of_int n) \<le> bitlen n - bitlen 1"
    by (simp add: ilog2_def Let_def)
  with b one show ?thesis by simp
qed

lemma powi_nonpos:
  fixes e :: int
  assumes "e \<le> 0"
  shows "(2::rat) powi e = 1 / 2 ^ nat (- e)"
  using assms by (auto simp add: power_int_def inverse_eq_divide power_one_over)

lemma powi_pos: "0 < (2::rat) powi e"
  by (simp add: power_int_def)

lemma fl_int:
  assumes "\<bar>k\<bar> < 2 ^ 53"
  shows "fl (of_int k) = of_int k"
proof (cases "k = 0")
  case True
  then show ?thesis by (simp add: fl_def)
next
  case False
  define n where "n = \<bar>k\<bar>"
  define e where "e = max (ilog2 (of_int n) - 52) (- 1074)"
  define j where "j = nat (- e)"
  have n: "0 < n" "n < 2 ^ 53"
    using False assms by (simp_all add: n_def)
  have "e \<le> 0"
    using ilog2_int_le [OF n] by (simp add: e_def)
  then have p: "(2::rat) powi e = 1 / 2 ^ j"
    unfolding j_def by (rule powi_nonpos)
  have "(of_int n :: rat) / 2 powi e = of_int (n * 2 ^ j)"
    by (simp add: p)
  then have r: "round_half_even (of_int n / 2 powi e) = n * 2 ^ j"
    by (simp only: round_half_even_int)
  have a: "\<bar>of_int k :: rat\<bar> = of_int n"
    by (simp add: n_def)
  have "fl (of_int k) = sgn (of_int k) * of_int (n * 2 ^ j) * 2 powi e"
    using False unfolding fl_def a Let_def e_def [symmetric] r by simp
  also have "\<dots> = sgn (of_int k) * of_int n"
    by (simp add: p)
  also have "\<dots> = of_int k"
    unfolding a [symmetric] by (simp add: sgn_mult_abs)
  finally show ?thesis .
qed

lemma fl_nonpos:
  assumes "x \<le> 0"
  shows "fl x \<le> 0"
proof (cases "x = 0")
  case True
  then show ?thesis by (simp add: fl_def)
next
  case False
  with assms have neg: "sgn x = - 1" by simp
  define e where "e = max (ilog2 \<bar>x\<bar> - 52) (- 1074)"
  have "0 \<le> \<bar>x\<bar> / 2 powi e"
    using powi_pos [of e] by simp
  then have "0 \<le> round_half_even (\<bar>x\<bar> / 2 powi e)"
    by (rule round_half_even_nonneg)
  then have "0 \<le> (of_int (round_half_even (\<bar>x\<bar> / 2 powi e)) :: rat) * 2 powi e"
    using powi_pos [of e] by simp
  then show ?thesis
    using False unfolding fl_def Let_def e_def [symmetric] neg by simp
qed


lemma powi_nat: "0 \<le> k \<Longrightarrow> (2::rat) powi k = 2 ^ nat k"
  by (simp add: power_int_def)

lemma powi_Suc: "(2::rat) powi (k + 1) = 2 * 2 powi k"
  by (simp add: power_int_add)

lemma powi_pred: "(2::rat) powi (k - 1) = 2 powi k / 2"
  by (simp add: power_int_diff)

lemma powi_diff: "(2::rat) powi (a - b) = 2 powi a / 2 powi b"
  by (simp add: power_int_diff)

lemma bitlen_powi:
  assumes "0 < p"
  shows "(2::rat) powi bitlen p / 2 \<le> of_int p" and "(of_int p :: rat) < 2 powi bitlen p"
proof -
  from bitlen_bounds [OF assms]
  have lo: "2 ^ nat (bitlen p - 1) \<le> p" and hi: "p < 2 ^ nat (bitlen p)"
    by simp_all
  have one: "1 \<le> bitlen p"
    using assms bitlen_eq_zero_iff [of p] bitlen_nonneg [of p] by linarith
  have "(2::rat) powi (bitlen p - 1) = 2 ^ nat (bitlen p - 1)"
    using one by (simp add: powi_nat)
  also have "\<dots> = of_int (2 ^ nat (bitlen p - 1))"
    by simp
  also have "\<dots> \<le> of_int p"
    using lo by (simp only: of_int_le_iff)
  finally show "(2::rat) powi bitlen p / 2 \<le> of_int p"
    by (simp add: powi_pred)
  have "(of_int p :: rat) < of_int (2 ^ nat (bitlen p))"
    using hi by (simp only: of_int_less_iff)
  also have "\<dots> = 2 powi bitlen p"
    using bitlen_nonneg [of p] by (simp add: powi_nat)
  finally show "(of_int p :: rat) < 2 powi bitlen p" .
qed

lemma ilog2_bounds:
  assumes "0 < x"
  shows "2 powi ilog2 x \<le> x" and "x < 2 powi (ilog2 x + 1)"
proof -
  obtain p q where pq: "quotient_of x = (p, q)"
    by (cases "quotient_of x")
  have q: "0 < q"
    using pq by (rule quotient_of_denom_pos)
  have x: "x = of_int p / of_int q"
    using pq by (rule quotient_of_div)
  have p: "0 < p"
    using assms q unfolding x by (simp add: zero_less_divide_iff)
  define k where "k = bitlen p - bitlen q"
  note bp = bitlen_powi [OF p] and bq = bitlen_powi [OF q]
  have qpos: "(0::rat) < of_int q" using q by simp
  have ppos: "(0::rat) < of_int p" using p by simp
  have il: "ilog2 x = (if 2 powi k \<le> x then k else k - 1)"
    by (simp add: ilog2_def pq Let_def k_def)
  have "x < 2 powi bitlen p / of_int q"
    unfolding x using bp(2) qpos by (simp add: divide_strict_right_mono)
  also have "\<dots> \<le> 2 powi bitlen p / (2 powi bitlen q / 2)"
    using bq(1) powi_pos [of "bitlen q"] powi_pos [of "bitlen p"] qpos
    by (intro divide_left_mono) (simp_all add: zero_less_mult_iff)
  also have "\<dots> = (2::rat) powi (k + 1)"
    by (simp add: k_def powi_Suc powi_diff)
  finally have hi: "x < 2 powi (k + 1)" .
  have "(2::rat) powi (k - 1) = (2 powi bitlen p / 2) / 2 powi bitlen q"
    by (simp add: k_def powi_pred powi_diff)
  also have "\<dots> \<le> of_int p / 2 powi bitlen q"
    by (rule divide_right_mono [OF bp(1)]) (rule less_imp_le [OF powi_pos])
  also have "\<dots> \<le> x"
    unfolding x using bq(2) qpos ppos by (intro divide_left_mono) simp_all
  finally have lo: "2 powi (k - 1) \<le> x" .
  show "2 powi ilog2 x \<le> x"
    using lo by (simp add: il)
  show "x < 2 powi (ilog2 x + 1)"
    using hi by (auto simp add: il)
qed

lemma fl_error:
  assumes "x \<noteq> 0" and "- 1022 \<le> ilog2 \<bar>x\<bar>"
  shows "\<bar>fl x - x\<bar> \<le> \<bar>x\<bar> / 2 ^ 53"
proof -
  define e where "e = ilog2 \<bar>x\<bar> - 52"
  define m where "m = round_half_even (\<bar>x\<bar> / 2 powi e)"
  have e: "max (ilog2 \<bar>x\<bar> - 52) (- 1074) = e"
    using assms(2) by (simp add: e_def)
  have f: "fl x = sgn x * (of_int m * 2 powi e)"
    using assms(1) unfolding fl_def Let_def e m_def [symmetric] by (simp add: mult.assoc)
  have "x = sgn x * \<bar>x\<bar>"
    by (simp add: sgn_mult_abs)
  then have "fl x - x = sgn x * (of_int m * 2 powi e - \<bar>x\<bar>)"
    unfolding f by (simp add: algebra_simps)
  then have "\<bar>fl x - x\<bar> = \<bar>of_int m * 2 powi e - \<bar>x\<bar>\<bar>"
    using assms(1) by (simp add: abs_mult abs_sgn_eq)
  also have "of_int m * 2 powi e - \<bar>x\<bar> = (of_int m - \<bar>x\<bar> / 2 powi e) * 2 powi e"
    using powi_pos [of e] by (simp add: algebra_simps)
  also have "\<bar>\<dots>\<bar> = \<bar>of_int m - \<bar>x\<bar> / 2 powi e\<bar> * 2 powi e"
    using powi_pos [of e] by (simp add: abs_mult)
  also have "\<dots> \<le> 1 / 2 * 2 powi e"
    using round_half_even_error [of "\<bar>x\<bar> / 2 powi e"] powi_pos [of e]
    unfolding m_def by (intro mult_right_mono) simp_all
  also have "\<dots> = 2 powi ilog2 \<bar>x\<bar> / 2 ^ 53"
    by (simp add: e_def powi_diff powi_nat)
  also have "\<dots> \<le> \<bar>x\<bar> / 2 ^ 53"
    using ilog2_bounds(1) [of "\<bar>x\<bar>"] assms(1) by (simp add: divide_right_mono)
  finally show ?thesis .
qed

lemma fl_zero: "fl 0 = 0"
  by (simp add: fl_def)

lemma fl_nonneg:
  assumes "0 \<le> x"
  shows "0 \<le> fl x"
proof (cases "x = 0")
  case True
  then show ?thesis by (simp add: fl_def)
next
  case False
  with assms have pos: "sgn x = 1" by simp
  define e where "e = max (ilog2 \<bar>x\<bar> - 52) (- 1074)"
  have "0 \<le> \<bar>x\<bar> / 2 powi e"
    using powi_pos [of e] by simp
  then have "0 \<le> round_half_even (\<bar>x\<bar> / 2 powi e)"
    by (rule round_half_even_nonneg)
  then have "0 \<le> (of_int (round_half_even (\<bar>x\<bar> / 2 powi e)) :: rat) * 2 powi e"
    using powi_pos [of e] by simp
  then show ?thesis
    using False unfolding fl_def Let_def e_def [symmetric] pos by simp
qed

lemma ilog2_ge:
  assumes "2 powi k \<le> x"
  shows "k \<le> ilog2 x"
proof (rule ccontr)
  assume "\<not> k \<le> ilog2 x"
  then have "ilog2 x + 1 \<le> k" by simp
  then have "(2::rat) powi (ilog2 x + 1) \<le> 2 powi k"
    by (intro power_int_increasing) simp_all
  moreover have "0 < x"
    using assms powi_pos [of k] by linarith
  ultimately show False
    using ilog2_bounds(2) [of x] assms by linarith
qed

lemma small_bound: "(2::rat) ^ 53 < overflow_bound"
proof -
  have "(2::rat) ^ 1024 = 2 ^ 970 * 2 ^ 54"
    by (simp only: power_add [symmetric]) simp
  moreover have "(2::rat) ^ 53 < 2 ^ 970 * (2 ^ 54 - 1)"
  proof -
    have "(2::rat) ^ 53 < 2 ^ 970"
      by (rule power_strict_increasing) simp_all
    also have "\<dots> = 2 ^ 970 * 1" by simp
    also have "\<dots> \<le> 2 ^ 970 * (2 ^ 54 - 1)"
      by (intro mult_left_mono) simp_all
    finally show ?thesis .
  qed
  ultimately show ?thesis
    by (simp add: overflow_bound_def algebra_simps)
qed

lemma to_double_small:
  assumes "\<bar>x\<bar> \<le> 2 ^ 53"
  shows "to_double x = Num (fl x)"
  using assms small_bound by (simp add: to_double_def abs_le_iff)

lemma to_double_int:
  assumes "\<bar>k\<bar> < 2 ^ 53"
  shows "to_double (of_int k) = Num (of_int k)"
proof -
  have "\<bar>of_int k :: rat\<bar> = of_int \<bar>k\<bar>"
    by simp
  also have "\<dots> \<le> of_int (2 ^ 53)"
    using assms by (simp only: of_int_le_iff)
  finally have "\<bar>of_int k :: rat\<bar> \<le> 2 ^ 53"
    by simp
  then show ?thesis
    by (simp add: to_double_small fl_int [OF assms])
qed

text \<open>The exact duration in hours: the minutes between the two times, over 60.\<close>

definition hours_between :: "nat \<Rightarrow> nat \<Rightarrow> nat \<Rightarrow> nat \<Rightarrow> rat" where
  "hours_between h1 m1 h2 m2 = (of_nat (h2 * 60 + m2) - of_nat (h1 * 60 + m1)) / 60"

lemma hours_between_bound:
  assumes "h1 < 24" and "m1 < 60" and "h2 < 24" and "m2 < 60"
  shows "\<bar>hours_between h1 m1 h2 m2\<bar> \<le> 24"
proof -
  have a: "(of_nat (h2 * 60 + m2) :: rat) \<le> of_nat 1440"
    using assms by (intro of_nat_mono) simp
  have b: "(of_nat (h1 * 60 + m1) :: rat) \<le> of_nat 1440"
    using assms by (intro of_nat_mono) simp
  have "\<bar>(of_nat (h2 * 60 + m2) :: rat) - of_nat (h1 * 60 + m1)\<bar> \<le> 1440"
    using a b by (simp add: abs_le_iff)
  then show ?thesis
    by (simp add: hours_between_def)
qed

lemma calculateHours_hhmm:
  assumes "h1 < 24" and "m1 < 60" and "h2 < 24" and "m2 < 60"
  shows "calculateHours base (hhmm h1 m1) (hhmm h2 m2) = Num (fl (hours_between h1 m1 h2 m2))"
proof -
  define s where "s = int (h1 * 3600000 + m1 * 60000)"
  define e where "e = int (h2 * 3600000 + m2 * 60000)"
  have ps: "parseISO base (''2000-01-01T'' @ hhmm h1 m1 @ '':00'') = Some (base + s)"
    unfolding s_def using assms by (intro parseISO_hhmm)
  have pe: "parseISO base (''2000-01-01T'' @ hhmm h2 m2 @ '':00'') = Some (base + e)"
    unfolding e_def using assms by (intro parseISO_hhmm)
  have range: "\<bar>e - s\<bar> < 2 ^ 53"
    using assms by (simp add: s_def e_def)
  have "num_sub (getTime (Some (base + e))) (getTime (Some (base + s)))
          = to_double (of_int (e - s))"
    by (simp add: num_sub_def getTime_def)
  also have "\<dots> = Num (of_int (e - s))"
    by (rule to_double_int [OF range])
  finally have sub: "num_sub (getTime (Some (base + e))) (getTime (Some (base + s)))
                       = Num (of_int (e - s))" .
  have q: "(of_int (e - s) :: rat) / (1000 * 60 * 60) = hours_between h1 m1 h2 m2"
    by (simp add: s_def e_def hours_between_def field_simps)
  have "\<bar>hours_between h1 m1 h2 m2\<bar> \<le> 2 ^ 53"
    using hours_between_bound [OF assms] by simp
  then have r: "to_double (hours_between h1 m1 h2 m2) = Num (fl (hours_between h1 m1 h2 m2))"
    by (rule to_double_small)
  have "calculateHours base (hhmm h1 m1) (hhmm h2 m2)
          = num_div (Num (of_int (e - s))) (Num (1000 * 60 * 60))"
    unfolding calculateHours_def ps pe Let_def sub ..
  also have "\<dots> = to_double (of_int (e - s) / (1000 * 60 * 60))"
    by simp
  also have "\<dots> = Num (fl (hours_between h1 m1 h2 m2))"
    by (simp only: q r)
  finally show ?thesis .
qed

lemma fl_hours_error:
  "\<bar>fl (hours_between h1 m1 h2 m2) - hours_between h1 m1 h2 m2\<bar>
     \<le> \<bar>hours_between h1 m1 h2 m2\<bar> / 2 ^ 53"
proof (cases "hours_between h1 m1 h2 m2 = 0")
  case True
  then show ?thesis by (simp add: fl_zero)
next
  case False
  define d where "d = int (h2 * 60 + m2) - int (h1 * 60 + m1)"
  have x: "hours_between h1 m1 h2 m2 = of_int d / 60"
    by (simp add: hours_between_def d_def)
  have "d \<noteq> 0"
    using False by (auto simp add: x)
  then have "1 \<le> \<bar>d\<bar>" by simp
  then have "(1::rat) \<le> of_int \<bar>d\<bar>"
    by (simp only: of_int_1_le_iff)
  then have "(1::rat) / 64 \<le> \<bar>of_int d / 60\<bar>"
    by simp
  moreover have "(2::rat) powi (- 6) = 1 / 64"
    using powi_nonpos [of "- 6"] by simp
  ultimately have "(2::rat) powi (- 6) \<le> \<bar>hours_between h1 m1 h2 m2\<bar>"
    by (simp add: x)
  then have "- 6 \<le> ilog2 \<bar>hours_between h1 m1 h2 m2\<bar>"
    by (rule ilog2_ge)
  then have "- 1022 \<le> ilog2 \<bar>hours_between h1 m1 h2 m2\<bar>"
    by simp
  with False show ?thesis
    by (rule fl_error)
qed

lemma hhmm_0900: "hhmm 9 0 = ''09:00''"
  by code_simp

lemma hhmm_1030: "hhmm 10 30 = ''10:30''"
  by code_simp

lemma hhmm_1000: "hhmm 10 0 = ''10:00''"
  by code_simp


lemma fl_half_examples: "fl (3 / 2) = 3 / 2" "fl (- 1) = - 1" "fl 2 = 2"
  by code_simp+

lemma fl_third: "fl (1 / 3) = 6004799503160661 / 18014398509481984"
  by code_simp

text \<open>
  C1. For same-day wall-clock times \<open>start\<close> and \<open>end\<close> in \<open>HH:MM\<close> form the
  computed duration is \<open>end - start\<close> as a fractional number of hours: the double
  nearest to the minutes between them over 60, which is within one part in \<open>2 ^ 53\<close> of
  it; from \<open>09:00\<close> to \<open>10:30\<close> it is 1.5 and from \<open>10:00\<close> to \<open>10:00\<close> it is 0.
\<close>

theorem calculateHours_is_difference_in_hours:
  "(h1 < 24 \<and> m1 < 60 \<and> h2 < 24 \<and> m2 < 60 \<longrightarrow>
      calculateHours base (hhmm h1 m1) (hhmm h2 m2)
        = Num (fl ((of_nat (h2 * 60 + m2) - of_nat (h1 * 60 + m1)) / 60))
      \<and> \<bar>fl ((of_nat (h2 * 60 + m2) - of_nat (h1 * 60 + m1)) / 60)
            - (of_nat (h2 * 60 + m2) - of_nat (h1 * 60 + m1)) / 60\<bar>
          \<le> \<bar>(of_nat (h2 * 60 + m2) - of_nat (h1 * 60 + m1)) / 60\<bar> / 2 ^ 53)
   \<and> calculateHours base ''09:00'' ''10:30'' = Num (3 / 2)
   \<and> calculateHours base ''10:00'' ''10:00'' = Num 0"
proof (intro conjI impI)
  assume v: "h1 < 24 \<and> m1 < 60 \<and> h2 < 24 \<and> m2 < 60"
  then have "calculateHours base (hhmm h1 m1) (hhmm h2 m2) = Num (fl (hours_between h1 m1 h2 m2))"
    by (simp add: calculateHours_hhmm)
  then show "calculateHours base (hhmm h1 m1) (hhmm h2 m2)
        = Num (fl ((of_nat (h2 * 60 + m2) - of_nat (h1 * 60 + m1)) / 60))"
    unfolding hours_between_def .
  show "\<bar>fl ((of_nat (h2 * 60 + m2) - of_nat (h1 * 60 + m1)) / 60)
            - (of_nat (h2 * 60 + m2) - of_nat (h1 * 60 + m1)) / 60\<bar>
          \<le> \<bar>(of_nat (h2 * 60 + m2) - of_nat (h1 * 60 + m1)) / 60\<bar> / 2 ^ 53"
    using fl_hours_error [of h1 m1 h2 m2] unfolding hours_between_def .
next
  have "calculateHours base (hhmm 9 0) (hhmm 10 30) = Num (fl (hours_between 9 0 10 30))"
    by (simp add: calculateHours_hhmm)
  moreover have "hours_between 9 0 10 30 = 3 / 2"
    by (simp add: hours_between_def)
  ultimately show "calculateHours base ''09:00'' ''10:30'' = Num (3 / 2)"
    by (simp only: hhmm_0900 hhmm_1030 fl_half_examples)
next
  have "calculateHours base (hhmm 10 0) (hhmm 10 0) = Num (fl (hours_between 10 0 10 0))"
    by (simp add: calculateHours_hhmm)
  moreover have "hours_between 10 0 10 0 = 0"
    by (simp add: hours_between_def)
  ultimately show "calculateHours base ''10:00'' ''10:00'' = Num 0"
    by (simp only: hhmm_1000 fl_zero)
qed

theorem calculateHours_is_difference_in_hours_witness:
  "calculateHours 946681200000 ''09:00'' ''09:20'' = Num (6004799503160661 / 18014398509481984)"
proof -
  have r: "hhmm 9 20 = ''09:20''"
    by code_simp
  have x: "(of_nat (9 * 60 + 20) - of_nat (9 * 60 + 0)) / 60 = (1 / 3 :: rat)"
    by simp
  have "calculateHours 946681200000 (hhmm 9 0) (hhmm 9 20)
          = Num (fl ((of_nat (9 * 60 + 20) - of_nat (9 * 60 + 0)) / 60))"
    using calculateHours_is_difference_in_hours [of 9 0 9 20 946681200000] by simp
  then show ?thesis
    by (simp only: r hhmm_0900 x fl_third)
qed

section \<open>The selected week\<close>

text \<open>
  A \<open>Date\<close> read through its local calendar fields: the milliseconds of local
  wall-clock time since 1970-01-01T00:00 (a Thursday). A calendar day has
  \<open>ms_per_day\<close> milliseconds; shifts of the clock within a time zone are outside
  the model.
\<close>

type_synonym local_time = int

definition ms_per_day :: int where
  "ms_per_day = 24 * 60 * 60 * 1000"

text \<open>
  Modelled from the spec: \<open>startOfWeek\<close> and \<open>endOfWeek\<close> (with the \<open>Date\<close> methods
  \<open>getDay\<close>, \<open>setDate\<close>, \<open>setHours\<close> they call) belong to the date library the
  component imports and are not among the sources. The spec gives the week as "Monday
  00:00 through Sunday 23:59 (ISO week, explicitly Monday-start regardless of locale)";
  the definitions follow the library's computation: the first day of the week is the
  option given, else the locale's, else the defaults', else 0 (Sunday); the date moves
  back (forward) by the distance of its day of the week to the first (last) day of the
  week and the time is set to 00:00:00.000 (23:59:59.999).
\<close>

definition getDay :: "local_time \<Rightarrow> int" where
  "getDay t = (t div ms_per_day + 4) mod 7"

definition setDate_by :: "local_time \<Rightarrow> int \<Rightarrow> local_time" where
  "setDate_by t n = t + n * ms_per_day"

definition setHours :: "local_time \<Rightarrow> int \<Rightarrow> int \<Rightarrow> int \<Rightarrow> int \<Rightarrow> local_time" where
  "setHours t h m s ms = t - t mod ms_per_day + (h * 3600000 + m * 60000 + s * 1000 + ms)"

record week_options =
  weekStartsOn :: "int option"
  locale_weekStartsOn :: "int option"

definition resolve_weekStartsOn :: "week_options \<Rightarrow> week_options \<Rightarrow> int" where
  "resolve_weekStartsOn defaultOptions options =
     (case weekStartsOn options of Some w \<Rightarrow> w | None \<Rightarrow>
      (case locale_weekStartsOn options of Some w \<Rightarrow> w | None \<Rightarrow>
       (case weekStartsOn defaultOptions of Some w \<Rightarrow> w | None \<Rightarrow>
        (case locale_weekStartsOn defaultOptions of Some w \<Rightarrow> w | None \<Rightarrow> 0))))"

definition startOfWeek :: "week_options \<Rightarrow> local_time \<Rightarrow> week_options \<Rightarrow> local_time" where
  "startOfWeek defaultOptions date options =
     (let wso = resolve_weekStartsOn defaultOptions options;
          day = getDay date;
          diff = (if day < wso then 7 else 0) + day - wso
      in setHours (setDate_by date (- diff)) 0 0 0 0)"

definition endOfWeek :: "week_options \<Rightarrow> local_time \<Rightarrow> week_options \<Rightarrow> local_time" where
  "endOfWeek defaultOptions date options =
     (let wso = resolve_weekStartsOn defaultOptions options;
          day = getDay date;
          diff = (if day < wso then - 7 else 0) + 6 - (day - wso)
      in setHours (setDate_by date diff) 23 59 59 999)"

text \<open>
  The component's \<open>weekStart\<close> and \<open>weekEnd\<close>: both calls pass
  \<open>{ weekStartsOn: 1 }\<close>.
\<close>

definition weekStart :: "week_options \<Rightarrow> local_time \<Rightarrow> local_time" where
  "weekStart defaultOptions currentWeek =
     startOfWeek defaultOptions currentWeek \<lparr>weekStartsOn = Some 1, locale_weekStartsOn = None\<rparr>"

definition weekEnd :: "week_options \<Rightarrow> local_time \<Rightarrow> local_time" where
  "weekEnd defaultOptions currentWeek =
     endOfWeek defaultOptions currentWeek \<lparr>weekStartsOn = Some 1, locale_weekStartsOn = None\<rparr>"

text \<open>The days from the Monday at or before a date to that date.\<close>

definition monday_offset :: "local_time \<Rightarrow> int" where
  "monday_offset D = (D div ms_per_day + 3) mod 7"

lemma next_day_mod:
  fixes q :: int
  shows "(q + 4) mod 7 = (if (q + 3) mod 7 = 6 then 0 else (q + 3) mod 7 + 1)"
proof -
  have r: "0 \<le> (q + 3) mod 7" "(q + 3) mod 7 < 7"
    by simp_all
  have "q + 4 = (q + 3) + 1" by simp
  then have "(q + 4) mod 7 = ((q + 3) mod 7 + 1) mod 7"
    by (simp only: mod_add_left_eq)
  also have "\<dots> = (if (q + 3) mod 7 = 6 then 0 else (q + 3) mod 7 + 1)"
    using r by (simp add: mod_pos_pos_trivial)
  finally show ?thesis .
qed

lemma monday_arith:
  fixes q :: int
  shows "(if (q + 4) mod 7 < 1 then 7 else 0) + (q + 4) mod 7 - 1 = (q + 3) mod 7"
proof -
  have "0 \<le> (q + 3) mod 7" by simp
  then show ?thesis
    by (simp add: next_day_mod)
qed

lemma sunday_arith:
  fixes q :: int
  shows "(if (q + 4) mod 7 < 1 then - 7 else 0) + 6 - ((q + 4) mod 7 - 1) = 6 - (q + 3) mod 7"
proof -
  have "0 \<le> (q + 3) mod 7" by simp
  then show ?thesis
    by (simp add: next_day_mod)
qed

lemma getDay_diff:
  "(if getDay D < 1 then 7 else 0) + getDay D - 1 = monday_offset D"
  unfolding getDay_def monday_offset_def by (rule monday_arith)

lemma getDay_diff_end:
  "(if getDay D < 1 then - 7 else 0) + 6 - (getDay D - 1) = 6 - monday_offset D"
  unfolding getDay_def monday_offset_def by (rule sunday_arith)

lemma floor_day_shift:
  fixes t k d :: int
  assumes "d \<noteq> 0"
  shows "(t + k * d) - (t + k * d) mod d = (t div d + k) * d"
proof -
  have "(t + k * d) - (t + k * d) mod d = ((t + k * d) div d) * d"
    by (simp only: minus_mod_eq_div_mult)
  also have "(t + k * d) div d = t div d + k"
    using assms by simp
  finally show ?thesis .
qed

lemma weekStart_eq:
  "weekStart dflt D = (D div ms_per_day - monday_offset D) * ms_per_day"
proof -
  have pos: "ms_per_day \<noteq> 0" by (simp add: ms_per_day_def)
  have "weekStart dflt D = (D + (- monday_offset D) * ms_per_day)
           - (D + (- monday_offset D) * ms_per_day) mod ms_per_day + (0 * 3600000 + 0 * 60000 + 0 * 1000 + 0)"
    unfolding weekStart_def startOfWeek_def Let_def setHours_def setDate_by_def
    by (simp only: resolve_weekStartsOn_def week_options.simps option.case getDay_diff)
  also have "\<dots> = (D div ms_per_day + (- monday_offset D)) * ms_per_day"
    by (simp only: floor_day_shift [OF pos])
  finally show ?thesis by simp
qed

lemma weekEnd_eq:
  "weekEnd dflt D = (D div ms_per_day - monday_offset D + 6) * ms_per_day + (ms_per_day - 1)"
proof -
  have pos: "ms_per_day \<noteq> 0" by (simp add: ms_per_day_def)
  have "weekEnd dflt D = (D + (6 - monday_offset D) * ms_per_day)
           - (D + (6 - monday_offset D) * ms_per_day) mod ms_per_day
           + (23 * 3600000 + 59 * 60000 + 59 * 1000 + 999)"
    unfolding weekEnd_def endOfWeek_def Let_def setHours_def setDate_by_def
    by (simp only: resolve_weekStartsOn_def week_options.simps option.case getDay_diff_end)
  also have "\<dots> = (D div ms_per_day + (6 - monday_offset D)) * ms_per_day + (ms_per_day - 1)"
    by (simp only: floor_day_shift [OF pos]) (simp add: ms_per_day_def)
  finally show ?thesis by (simp add: algebra_simps)
qed

lemma monday_offset_range: "0 \<le> monday_offset D \<and> monday_offset D \<le> 6"
proof -
  have "monday_offset D < 7"
    unfolding monday_offset_def by (rule pos_mod_bound) simp
  moreover have "0 \<le> monday_offset D"
    unfolding monday_offset_def by (rule pos_mod_sign) simp
  ultimately show ?thesis by simp
qed

lemma div_day_mult: "(k * ms_per_day) div ms_per_day = k"
  by (simp add: ms_per_day_def)

lemma div_day_mult_add:
  assumes "0 \<le> r" and "r < ms_per_day"
  shows "(k * ms_per_day + r) div ms_per_day = k" and "(k * ms_per_day + r) mod ms_per_day = r"
proof -
  have pos: "ms_per_day \<noteq> 0" by (simp add: ms_per_day_def)
  have "(k * ms_per_day + r) div ms_per_day = k + r div ms_per_day"
    using pos by (simp add: add.commute)
  then show "(k * ms_per_day + r) div ms_per_day = k"
    using assms by (simp add: div_pos_pos_trivial)
  show "(k * ms_per_day + r) mod ms_per_day = r"
    using assms by (simp add: mod_pos_pos_trivial)
qed

lemma monday_of_offset:
  fixes q :: int
  shows "(q - (q + 3) mod 7 + 4) mod 7 = 1"
proof -
  have "q - (q + 3) mod 7 + 4 = 1 + ((q + 3) div 7) * 7"
    by (simp add: algebra_simps minus_mod_eq_div_mult [symmetric])
  then show ?thesis
    by (simp only: mod_mult_self1) simp
qed

lemma sunday_of_offset:
  fixes q :: int
  shows "(q - (q + 3) mod 7 + 6 + 4) mod 7 = 0"
proof -
  have "q - (q + 3) mod 7 + 6 + 4 = 0 + ((q + 3) div 7 + 1) * 7"
    by (simp add: algebra_simps minus_mod_eq_div_mult [symmetric])
  then show ?thesis
    by (simp only: mod_mult_self1) simp
qed

text \<open>
  C2. For every reference date \<open>D\<close> the computed week start is a Monday at 00:00, at
  most six calendar days before \<open>D\<close> and not after it; the computed week end is the
  Sunday six days after that Monday, at 23:59:59.999; \<open>week_start \<le> D \<le> week_end\<close>;
  and neither depends on the defaults a locale sets.
\<close>

theorem week_is_monday_to_sunday:
  "getDay (weekStart dflt D) = 1
   \<and> weekStart dflt D mod ms_per_day = 0
   \<and> weekStart dflt D \<le> D
   \<and> D div ms_per_day - weekStart dflt D div ms_per_day \<le> 6
   \<and> getDay (weekEnd dflt D) = 0
   \<and> weekEnd dflt D div ms_per_day = weekStart dflt D div ms_per_day + 6
   \<and> weekEnd dflt D mod ms_per_day = ms_per_day - 1
   \<and> D \<le> weekEnd dflt D
   \<and> weekStart dflt D = weekStart dflt' D
   \<and> weekEnd dflt D = weekEnd dflt' D"
proof -
  define q where "q = D div ms_per_day"
  define r where "r = D mod ms_per_day"
  define off where "off = monday_offset D"
  have mpos: "0 < ms_per_day" by (simp add: ms_per_day_def)
  have D: "D = q * ms_per_day + r"
    unfolding q_def r_def by simp
  have r: "0 \<le> r" "r < ms_per_day"
    unfolding r_def using mpos by simp_all
  have off: "0 \<le> off" "off \<le> 6"
    unfolding off_def using monday_offset_range by simp_all
  have off_eq: "off = (q + 3) mod 7"
    unfolding off_def q_def monday_offset_def ..
  have ws: "weekStart dflt D = (q - off) * ms_per_day"
    unfolding q_def off_def by (rule weekStart_eq)
  have we: "weekEnd dflt D = (q - off + 6) * ms_per_day + (ms_per_day - 1)"
    unfolding q_def off_def by (rule weekEnd_eq)
  have ws_div: "weekStart dflt D div ms_per_day = q - off"
    unfolding ws by (rule div_day_mult)
  have last: "0 \<le> ms_per_day - 1" "ms_per_day - 1 < ms_per_day"
    using mpos by simp_all
  have we_div: "weekEnd dflt D div ms_per_day = q - off + 6"
    unfolding we by (rule div_day_mult_add(1) [OF last])
  have c1: "getDay (weekStart dflt D) = 1"
    unfolding getDay_def ws_div off_eq by (rule monday_of_offset)
  have c2: "weekStart dflt D mod ms_per_day = 0"
    unfolding ws by simp
  have "(q - off) * ms_per_day \<le> q * ms_per_day"
    using off(1) mpos by (simp add: mult_right_mono)
  then have c3: "weekStart dflt D \<le> D"
    unfolding ws using D r(1) by simp
  have c4: "D div ms_per_day - weekStart dflt D div ms_per_day \<le> 6"
    unfolding ws_div using off(2) by (simp add: q_def)
  have c5: "getDay (weekEnd dflt D) = 0"
    unfolding getDay_def we_div off_eq by (rule sunday_of_offset)
  have c6: "weekEnd dflt D div ms_per_day = weekStart dflt D div ms_per_day + 6"
    unfolding we_div ws_div by simp
  have c7: "weekEnd dflt D mod ms_per_day = ms_per_day - 1"
    unfolding we by (rule div_day_mult_add(2) [OF last])
  have "q * ms_per_day \<le> (q - off + 6) * ms_per_day"
    using off(2) mpos by (simp add: mult_right_mono)
  then have c8: "D \<le> weekEnd dflt D"
    unfolding we using D r(2) by simp
  have c9: "weekStart dflt D = weekStart dflt' D"
    by (simp only: weekStart_eq)
  have c10: "weekEnd dflt D = weekEnd dflt' D"
    by (simp only: weekEnd_eq)
  from c1 c2 c3 c4 c5 c6 c7 c8 c9 c10 show ?thesis
    by blast
qed

section \<open>Records of the data gateway\<close>

text \<open>The role of a user: the string union \<open>'user' | 'supervisor' | 'manager'\<close>.\<close>

datatype role = RoleUser | RoleSupervisor | RoleManager

fun role_str :: "role \<Rightarrow> string" where
  "role_str RoleUser = ''user''"
| "role_str RoleSupervisor = ''supervisor''"
| "role_str RoleManager = ''manager''"

record user =
  u_id :: string
  u_email :: string
  u_name :: string
  u_role :: role

record authorized_email =
  ae_id :: string
  ae_email :: string
  ae_role :: role
  ae_added_by :: string

record project =
  p_id :: string
  p_name :: string
  p_client :: string

record task =
  t_id :: string
  t_name :: string
  t_project_id :: string

record time_entry =
  te_id :: string
  te_project_id :: string
  te_task_id :: "string option"
  te_date :: string
  te_start_time :: string
  te_end_time :: string
  te_hours :: num
  te_description :: string
  te_project :: "project option"
  te_task :: "task option"

text \<open>
  \<open>Partial<TimeEntry>\<close>, the argument of \<open>saveTimeEntry\<close>: every field may be
  missing (\<open>None\<close> is \<open>undefined\<close>), and \<open>task_id\<close> may also be \<open>null\<close>.
\<close>

datatype nullable_str = Undefined | Null | Str string

record partial_entry =
  pe_id :: "string option"
  pe_project_id :: "string option"
  pe_task_id :: nullable_str
  pe_date :: "string option"
  pe_start_time :: "string option"
  pe_end_time :: "string option"
  pe_hours :: "num option"
  pe_description :: "string option"
  pe_project :: "project option"
  pe_task :: "task option"

text \<open>The value of a column in a request to the gateway.\<close>

datatype jval = JUndefined | JNull | JStr string | JNum num

type_synonym "values" = "(string \<times> jval) list"

text \<open>
  The requests the components send: a write to a table (\<open>update(values).eq('id', id)\<close>,
  \<open>insert\<close>, \<open>delete().eq('id', id)\<close>, \<open>upsert\<close>), a read, or a login link.
\<close>

datatype command =
    Update string "values" string
  | Insert string "values"
  | Delete string string
  | Upsert string "values"

datatype query =
    SelectAll string string
  | SelectEntries string string string
  | SelectSingle string string string

text \<open>
  What a call does that is visible outside the component state, in the order in which
  it happens: requests to the gateway and to the identity provider, notifications and
  console messages.
\<close>

datatype effect =
    Command command
  | Query query
  | SendOtp string
  | ToastSuccess string
  | ToastError string
  | ConsoleError string string

text \<open>
  The collaborators of the components, as parameters: the answers of the data gateway (a
  read answers with \<open>(data, error)\<close>, a write with an error or none), of the identity
  provider, the clock, the \<open>yyyy-MM-dd\<close> formatter of the date library, the epoch of
  local midnight of the reference date, and the date library's defaults.
\<close>

record env =
  gw_command :: "command \<Rightarrow> string option"
  gw_projects :: "project list option \<times> string option"
  gw_tasks :: "task list option \<times> string option"
  gw_entries :: "string \<Rightarrow> string \<Rightarrow> string \<Rightarrow> time_entry list option \<times> string option"
  gw_authorized :: "string \<Rightarrow> authorized_email option \<times> string option"
  gw_otp :: "string \<Rightarrow> string option"
  now_iso :: string
  format_ymd :: "local_time \<Rightarrow> string"
  tz_base :: int
  date_defaults :: week_options

section \<open>The time-tracking component\<close>

record new_entry =
  ne_date :: string
  ne_project_id :: string
  ne_task_id :: string
  ne_start_time :: string
  ne_end_time :: string
  ne_description :: string

record tt_state =
  currentWeek :: local_time
  timeEntries :: "time_entry list"
  projects :: "project list"
  tasks :: "task list"
  loading :: bool
  editingEntry :: "string option"
  newEntry :: "new_entry option"
  effects :: "effect list"

definition emit :: "effect list \<Rightarrow> tt_state \<Rightarrow> tt_state" where
  "emit es st = st\<lparr>effects := effects st @ es\<rparr>"

text \<open>\<open>data || []\<close>: a missing result counts as the empty list.\<close>

definition or_empty :: "'a list option \<Rightarrow> 'a list" where
  "or_empty data = (case data of Some d \<Rightarrow> d | None \<Rightarrow> [])"

text \<open>The \<open>catch\<close> and \<open>finally\<close> blocks of \<open>fetchData\<close>.\<close>

definition fetch_failed :: "string \<Rightarrow> tt_state \<Rightarrow> tt_state" where
  "fetch_failed err st =
     (emit [ConsoleError ''Error fetching data:'' err, ToastError ''Failed to load data''] st)
       \<lparr>loading := False\<rparr>"

definition fetchData :: "env \<Rightarrow> user option \<Rightarrow> tt_state \<Rightarrow> tt_state" where
  "fetchData env usr st =
     (case usr of
        None \<Rightarrow> st
      | Some u \<Rightarrow>
          (let st1 = emit [Query (SelectAll ''projects'' ''name'')] (st\<lparr>loading := True\<rparr>) in
           case gw_projects env of
             (_, Some projectsError) \<Rightarrow> fetch_failed projectsError st1
           | (projectsData, None) \<Rightarrow>
          (let st2 = emit [Query (SelectAll ''tasks'' ''name'')]
                       (st1\<lparr>projects := or_empty projectsData\<rparr>) in
           case gw_tasks env of
             (_, Some tasksError) \<Rightarrow> fetch_failed tasksError st2
           | (tasksData, None) \<Rightarrow>
          (let lo = format_ymd env (weekStart (date_defaults env) (currentWeek st));
               hi = format_ymd env (weekEnd (date_defaults env) (currentWeek st));
               st3 = emit [Query (SelectEntries (u_id u) lo hi)]
                       (st2\<lparr>tasks := or_empty tasksData\<rparr>) in
           case gw_entries env (u_id u) lo hi of
             (_, Some entriesError) \<Rightarrow> fetch_failed entriesError st3
           | (entriesData, None) \<Rightarrow>
               st3\<lparr>timeEntries := or_empty entriesData, loading := False\<rparr>))))"

text \<open>
  JavaScript on optional values: a string is truthy when it is present and not empty;
  \<open>`${x}`\<close> of a missing \<open>x\<close> is the text \<open>undefined\<close>; \<open>x || null\<close> and
  \<open>x || ''\<close> replace a falsy \<open>x\<close>.
\<close>

definition truthy :: "string option \<Rightarrow> bool" where
  "truthy x = (case x of Some s \<Rightarrow> s \<noteq> [] | None \<Rightarrow> False)"

definition interpolate :: "string option \<Rightarrow> string" where
  "interpolate x = (case x of Some s \<Rightarrow> s | None \<Rightarrow> ''undefined'')"

definition field_val :: "string option \<Rightarrow> jval" where
  "field_val x = (case x of Some s \<Rightarrow> JStr s | None \<Rightarrow> JUndefined)"

definition or_null :: "nullable_str \<Rightarrow> jval" where
  "or_null x = (case x of Str s \<Rightarrow> (if s = [] then JNull else JStr s) | _ \<Rightarrow> JNull)"

definition or_empty_str :: "string option \<Rightarrow> jval" where
  "or_empty_str x = (case x of Some s \<Rightarrow> (if s = [] then JStr [] else JStr s) | None \<Rightarrow> JStr [])"

text \<open>
  The write \<open>saveTimeEntry\<close> sends for an entry: an update of the row \<open>entry.id\<close> when
  the entry has an id, an insert scoped to the acting user otherwise.
\<close>

definition save_command :: "env \<Rightarrow> user \<Rightarrow> partial_entry \<Rightarrow> command" where
  "save_command env u entry =
     (let hours = calculateHours (tz_base env)
                    (interpolate (pe_start_time entry)) (interpolate (pe_end_time entry)) in
      if truthy (pe_id entry) then
        Update ''time_entries''
          [(''project_id'', field_val (pe_project_id entry)),
           (''task_id'', or_null (pe_task_id entry)),
           (''start_time'', field_val (pe_start_time entry)),
           (''end_time'', field_val (pe_end_time entry)),
           (''hours'', JNum hours),
           (''description'', field_val (pe_description entry)),
           (''updated_at'', JStr (now_iso env))]
          (interpolate (pe_id entry))
      else
        Insert ''time_entries''
          [(''user_id'', JStr (u_id u)),
           (''project_id'', field_val (pe_project_id entry)),
           (''task_id'', or_null (pe_task_id entry)),
           (''date'', field_val (pe_date entry)),
           (''start_time'', field_val (pe_start_time entry)),
           (''end_time'', field_val (pe_end_time entry)),
           (''hours'', JNum hours),
           (''description'', or_empty_str (pe_description entry))])"

definition save_toast :: "partial_entry \<Rightarrow> string" where
  "save_toast entry = (if truthy (pe_id entry) then ''Time entry updated'' else ''Time entry added'')"

definition saveTimeEntry :: "env \<Rightarrow> user option \<Rightarrow> partial_entry \<Rightarrow> tt_state \<Rightarrow> tt_state" where
  "saveTimeEntry env usr entry st =
     (case usr of
        None \<Rightarrow> st
      | Some u \<Rightarrow>
          (let cmd = save_command env u entry;
               st1 = emit [Command cmd] st in
           case gw_command env cmd of
             Some err \<Rightarrow>
               emit [ConsoleError ''Error saving time entry:'' err,
                     ToastError ''Failed to save time entry''] st1
           | None \<Rightarrow>
               fetchData env usr
                 ((emit [ToastSuccess (save_toast entry)] st1)
                    \<lparr>editingEntry := None, newEntry := None\<rparr>)))"

definition deleteTimeEntry :: "env \<Rightarrow> user option \<Rightarrow> string \<Rightarrow> tt_state \<Rightarrow> tt_state" where
  "deleteTimeEntry env usr entry_id st =
     (let cmd = Delete ''time_entries'' entry_id;
          st1 = emit [Command cmd] st in
      case gw_command env cmd of
        Some err \<Rightarrow>
          emit [ConsoleError ''Error deleting time entry:'' err,
                ToastError ''Failed to delete time entry''] st1
      | None \<Rightarrow> fetchData env usr (emit [ToastSuccess ''Time entry deleted''] st1))"

definition getEntriesForDay :: "env \<Rightarrow> tt_state \<Rightarrow> local_time \<Rightarrow> time_entry list" where
  "getEntriesForDay env st date =
     (let dateStr = format_ymd env date
      in filter (\<lambda>entry. te_date entry = dateStr) (timeEntries st))"

definition getTotalHoursForDay :: "env \<Rightarrow> tt_state \<Rightarrow> local_time \<Rightarrow> num" where
  "getTotalHoursForDay env st date =
     foldl (\<lambda>total entry. num_add total (te_hours entry)) (Num 0) (getEntriesForDay env st date)"

definition startNewEntry :: "env \<Rightarrow> local_time \<Rightarrow> tt_state \<Rightarrow> tt_state" where
  "startNewEntry env date st =
     st\<lparr>newEntry := Some \<lparr>ne_date = format_ymd env date, ne_project_id = [], ne_task_id = [],
                           ne_start_time = ''09:00'', ne_end_time = ''10:00'',
                           ne_description = []\<rparr>\<rparr>"

subsection \<open>The two forms that submit a save\<close>

text \<open>
  The new-entry form hands its entry to \<open>onSave\<close> as it is; its save button is
  disabled while \<open>entry.project_id\<close> is falsy, and a disabled button delivers no click.
\<close>

definition new_entry_object :: "new_entry \<Rightarrow> partial_entry" where
  "new_entry_object entry =
     \<lparr>pe_id = None, pe_project_id = Some (ne_project_id entry),
      pe_task_id = Str (ne_task_id entry), pe_date = Some (ne_date entry),
      pe_start_time = Some (ne_start_time entry), pe_end_time = Some (ne_end_time entry),
      pe_hours = None, pe_description = Some (ne_description entry),
      pe_project = None, pe_task = None\<rparr>"

definition NewEntryForm_save :: "env \<Rightarrow> user option \<Rightarrow> new_entry \<Rightarrow> tt_state \<Rightarrow> tt_state" where
  "NewEntryForm_save env usr entry st =
     (let disabled = \<not> truthy (Some (ne_project_id entry)) in
      if disabled then st else saveTimeEntry env usr (new_entry_object entry) st)"

text \<open>
  The card of a stored entry in edit mode: the form starts from the entry, choosing a
  project (the first option is \<open>Select Project\<close>, of value \<open>''\<close>) clears the task, and
  the save button, which is never disabled, calls \<open>onSave({ ...entry, ...formData })\<close>.
\<close>

record form_data =
  fd_project_id :: string
  fd_task_id :: string
  fd_start_time :: string
  fd_end_time :: string
  fd_description :: string

definition initial_formData :: "time_entry \<Rightarrow> form_data" where
  "initial_formData entry =
     \<lparr>fd_project_id = te_project_id entry,
      fd_task_id = (case te_task_id entry of Some s \<Rightarrow> (if s = [] then [] else s) | None \<Rightarrow> []),
      fd_start_time = te_start_time entry, fd_end_time = te_end_time entry,
      fd_description = te_description entry\<rparr>"

definition select_project :: "string \<Rightarrow> form_data \<Rightarrow> form_data" where
  "select_project v formData = formData\<lparr>fd_project_id := v, fd_task_id := []\<rparr>"

definition spread :: "time_entry \<Rightarrow> form_data \<Rightarrow> partial_entry" where
  "spread entry formData =
     \<lparr>pe_id = Some (te_id entry), pe_project_id = Some (fd_project_id formData),
      pe_task_id = Str (fd_task_id formData), pe_date = Some (te_date entry),
      pe_start_time = Some (fd_start_time formData), pe_end_time = Some (fd_end_time formData),
      pe_hours = Some (te_hours entry), pe_description = Some (fd_description formData),
      pe_project = te_project entry, pe_task = te_task entry\<rparr>"

definition TimeEntryCard_save ::
  "env \<Rightarrow> user option \<Rightarrow> time_entry \<Rightarrow> form_data \<Rightarrow> tt_state \<Rightarrow> tt_state" where
  "TimeEntryCard_save env usr entry formData st = saveTimeEntry env usr (spread entry formData) st"

section \<open>The sign-in hook\<close>

record auth_state =
  au_user :: "user option"
  au_loading :: bool
  au_effects :: "effect list"

definition auth_emit :: "effect list \<Rightarrow> auth_state \<Rightarrow> auth_state" where
  "auth_emit es st = st\<lparr>au_effects := au_effects st @ es\<rparr>"

text \<open>\<open>name || email.split('@')[0]\<close>: the given name, or the part of the address before \<open>@\<close>.\<close>

definition name_or_local_part :: "string option \<Rightarrow> string \<Rightarrow> string" where
  "name_or_local_part name email =
     (if truthy name then interpolate name else takeWhile (\<lambda>c. c \<noteq> CHR ''@'') email)"

text \<open>
  The two ways \<open>signIn\<close> gives up, each followed by the \<open>finally\<close> block: the early
  \<open>return false\<close> of the allow-list check, and the \<open>catch\<close> block.
\<close>

definition not_authorized :: "auth_state \<Rightarrow> bool \<times> auth_state" where
  "not_authorized st =
     (False, (auth_emit [ToastError ''Email not authorized. Please contact your manager.''] st)
               \<lparr>au_loading := False\<rparr>)"

definition sign_in_failed :: "string \<Rightarrow> auth_state \<Rightarrow> bool \<times> auth_state" where
  "sign_in_failed err st =
     (False, (auth_emit [ConsoleError ''Error signing in:'' err, ToastError ''Failed to sign in''] st)
               \<lparr>au_loading := False\<rparr>)"

text \<open>
  \<open>signIn\<close>: the allow-list lookup (\<open>authError || !authorized\<close> ends the call), the
  login link, the upsert of the profile.
\<close>

definition signIn :: "env \<Rightarrow> string \<Rightarrow> string option \<Rightarrow> auth_state \<Rightarrow> bool \<times> auth_state" where
  "signIn env email name st =
     (let st1 = auth_emit [Query (SelectSingle ''authorized_emails'' ''email'' email)]
                  (st\<lparr>au_loading := True\<rparr>) in
      case gw_authorized env email of
        (_, Some authError) \<Rightarrow> not_authorized st1
      | (None, None) \<Rightarrow> not_authorized st1
      | (Some authorized, None) \<Rightarrow>
          (let st2 = auth_emit [SendOtp email] st1 in
           case gw_otp env email of
             Some signInError \<Rightarrow> sign_in_failed signInError st2
           | None \<Rightarrow>
               (let cmd = Upsert ''users''
                            [(''email'', JStr email),
                             (''name'', JStr (name_or_local_part name email)),
                             (''role'', JStr (role_str (ae_role authorized)))];
                    st3 = auth_emit [Command cmd] st2 in
                case gw_command env cmd of
                  Some upsertError \<Rightarrow> sign_in_failed upsertError st3
                | None \<Rightarrow>
                    (True, (auth_emit [ToastSuccess ''Check your email for the login link!''] st3)
                             \<lparr>au_loading := False\<rparr>))))"

section \<open>The navigation of the layout\<close>

datatype icon = Clock | FolderOpen | BarChart3 | Users

record nav_item =
  nav_id :: string
  nav_name :: string
  nav_icon :: icon

definition navigation :: "user option \<Rightarrow> nav_item list" where
  "navigation usr =
     [\<lparr>nav_id = ''timetracking'', nav_name = ''Time Tracking'', nav_icon = Clock\<rparr>,
      \<lparr>nav_id = ''projects'', nav_name = ''Projects'', nav_icon = FolderOpen\<rparr>]
     @ (if map_option u_role usr = Some RoleSupervisor \<or> map_option u_role usr = Some RoleManager
        then [\<lparr>nav_id = ''analytics'', nav_name = ''Analytics'', nav_icon = BarChart3\<rparr>]
        else [])
     @ (if map_option u_role usr = Some RoleManager
        then [\<lparr>nav_id = ''management'', nav_name = ''User Management'', nav_icon = Users\<rparr>]
        else [])"

section \<open>What a write stores\<close>

text \<open>
  Modelled from the spec: the storage of the data gateway is not among the sources. The
  spec takes it as a record store with \<open>insert\<close> and \<open>update-by-id\<close>, whose records are
  "mutated only via full-record update (no partial patch semantics beyond whatever
  fields are sent)": a write sets in the stored row the columns it sends and leaves the
  others. A column of value \<open>undefined\<close> is not sent, and \<open>NaN\<close> or an infinity is
  sent as \<open>null\<close>.
\<close>

fun wire :: "jval \<Rightarrow> jval option" where
  "wire JUndefined = None"
| "wire (JNum (Num r)) = Some (JNum (Num r))"
| "wire (JNum _) = Some JNull"
| "wire v = Some v"

fun apply_values :: "values \<Rightarrow> (string \<rightharpoonup> jval) \<Rightarrow> (string \<rightharpoonup> jval)" where
  "apply_values [] row = row"
| "apply_values ((k, v) # vs) row =
     apply_values vs (case wire v of None \<Rightarrow> row | Some w \<Rightarrow> row(k \<mapsto> w))"

section \<open>Reading the effects of a call\<close>

text \<open>The writes among the effects, the values a write carries, and the failure messages.\<close>

fun commands :: "effect list \<Rightarrow> command list" where
  "commands [] = []"
| "commands (Command c # es) = c # commands es"
| "commands (_ # es) = commands es"

fun values_of :: "command \<Rightarrow> values" where
  "values_of (Update _ vs _) = vs"
| "values_of (Insert _ vs) = vs"
| "values_of (Delete _ _) = []"
| "values_of (Upsert _ vs) = vs"

fun failure_signals :: "effect list \<Rightarrow> effect list" where
  "failure_signals [] = []"
| "failure_signals (ToastError m # es) = ToastError m # failure_signals es"
| "failure_signals (ConsoleError m e # es) = ConsoleError m e # failure_signals es"
| "failure_signals (_ # es) = failure_signals es"

text \<open>The effects a re-fetch adds for a signed-in user (see \<open>fetchData_effects\<close>).\<close>

definition fetch_issued :: "env \<Rightarrow> user \<Rightarrow> local_time \<Rightarrow> effect list" where
  "fetch_issued env u week =
     Query (SelectAll ''projects'' ''name'') #
     (case gw_projects env of
        (_, Some err) \<Rightarrow> [ConsoleError ''Error fetching data:'' err, ToastError ''Failed to load data'']
      | (_, None) \<Rightarrow>
          Query (SelectAll ''tasks'' ''name'') #
          (case gw_tasks env of
             (_, Some err) \<Rightarrow>
               [ConsoleError ''Error fetching data:'' err, ToastError ''Failed to load data'']
           | (_, None) \<Rightarrow>
               Query (SelectEntries (u_id u)
                        (format_ymd env (weekStart (date_defaults env) week))
                        (format_ymd env (weekEnd (date_defaults env) week))) #
               (case gw_entries env (u_id u)
                        (format_ymd env (weekStart (date_defaults env) week))
                        (format_ymd env (weekEnd (date_defaults env) week)) of
                  (_, Some err) \<Rightarrow>
                    [ConsoleError ''Error fetching data:'' err, ToastError ''Failed to load data'']
                | (_, None) \<Rightarrow> [])))"

section \<open>Sample data\<close>

text \<open>
  A user, two stored entries, a gateway that accepts every request and one that refuses
  every write, a component state, and the two kinds of entry a save receives: one from
  the new-entry form (from 10:00 to 09:00) and one from the card of a stored entry,
  unchanged (\<open>update0\<close>) and edited (\<open>update1\<close>). The state \<open>st_tenths\<close> holds two
  entries of one day with the doubles 0.1 and 0.2 as hours, around an entry of another
  day.
\<close>

definition demo_format :: "local_time \<Rightarrow> string" where
  "demo_format t =
     (if t div ms_per_day = 20758 then ''2026-11-01''
      else if t div ms_per_day = 20752 then ''2026-10-26''
      else ''1970-01-01'')"

definition user0 :: user where
  "user0 = \<lparr>u_id = ''u1'', u_email = ''ann@example.org'', u_name = ''ann'', u_role = RoleUser\<rparr>"

definition entry0 :: time_entry where
  "entry0 = \<lparr>te_id = ''e1'', te_project_id = ''p1'', te_task_id = Some ''t1'',
             te_date = ''2026-10-26'', te_start_time = ''09:00'', te_end_time = ''10:30'',
             te_hours = Num (3 / 2), te_description = ''standup'',
             te_project = Some \<lparr>p_id = ''p1'', p_name = ''Site'', p_client = ''Acme''\<rparr>,
             te_task = None\<rparr>"

definition entry1 :: time_entry where
  "entry1 = entry0\<lparr>te_id := ''e2'', te_date := ''2026-11-01'', te_hours := Num 2\<rparr>"

definition env_ok :: env where
  "env_ok =
     \<lparr>gw_command = (\<lambda>c. None),
      gw_projects = (Some [\<lparr>p_id = ''p1'', p_name = ''Site'', p_client = ''Acme''\<rparr>], None),
      gw_tasks = (Some [], None),
      gw_entries = (\<lambda>uid lo hi. (Some [entry0], None)),
      gw_authorized = (\<lambda>e. if e = ''ann@example.org''
                         then (Some \<lparr>ae_id = ''a1'', ae_email = e, ae_role = RoleUser,
                                      ae_added_by = ''m1''\<rparr>, None)
                         else (None, Some ''PGRST116'')),
      gw_otp = (\<lambda>e. None),
      now_iso = ''2026-11-01T12:00:00.000Z'',
      format_ymd = demo_format,
      tz_base = 946681200000,
      date_defaults = \<lparr>weekStartsOn = None, locale_weekStartsOn = None\<rparr>\<rparr>"

definition env_fail :: env where
  "env_fail = env_ok\<lparr>gw_command := (\<lambda>c. Some ''denied'')\<rparr>"

definition st0 :: tt_state where
  "st0 = \<lparr>currentWeek = 1793534400000, timeEntries = [entry0, entry1], projects = [], tasks = [],
          loading = False, editingEntry = None, newEntry = None, effects = []\<rparr>"

definition create0 :: partial_entry where
  "create0 = new_entry_object
     \<lparr>ne_date = ''2026-11-01'', ne_project_id = ''p1'', ne_task_id = [],
      ne_start_time = ''10:00'', ne_end_time = ''09:00'', ne_description = []\<rparr>"

definition update0 :: partial_entry where
  "update0 = spread entry0 (initial_formData entry0)"

definition update1 :: partial_entry where
  "update1 = spread entry0
     \<lparr>fd_project_id = ''p2'', fd_task_id = [], fd_start_time = ''11:00'',
      fd_end_time = ''12:15'', fd_description = ''review''\<rparr>"

definition st_tenths :: tt_state where
  "st_tenths = st0\<lparr>timeEntries :=
     [entry1\<lparr>te_id := ''e3'', te_hours := Num (3602879701896397 / 36028797018963968)\<rparr>,
      entry0,
      entry1\<lparr>te_id := ''e4'', te_hours := Num (3602879701896397 / 18014398509481984)\<rparr>]\<rparr>"

definition row0 :: "string \<rightharpoonup> jval" where
  "row0 = map_of [(''id'', JStr ''e1''), (''user_id'', JStr ''u1''), (''project_id'', JStr ''p1''),
                  (''task_id'', JStr ''t1''), (''date'', JStr ''2026-10-26''),
                  (''start_time'', JStr ''09:00''), (''end_time'', JStr ''10:30''),
                  (''hours'', JNum (Num (3 / 2))), (''description'', JStr ''standup'')]"

definition auth0 :: auth_state where
  "auth0 = \<lparr>au_user = None, au_loading = False, au_effects = []\<rparr>"

section \<open>Properties of the time-tracking component\<close>

lemma commands_append: "commands (xs @ ys) = commands xs @ commands ys"
  by (induction xs rule: commands.induct) simp_all

lemma effects_emit: "effects (emit es st) = effects st @ es"
  by (simp add: emit_def)

lemma fetchData_effects:
  "effects (fetchData env (Some u) st) = effects st @ fetch_issued env u (currentWeek st)"
  by (simp add: fetchData_def fetch_issued_def fetch_failed_def emit_def Let_def
      split: prod.splits option.splits)

lemma commands_fetch_issued: "commands (fetch_issued env u week) = []"
  by (simp add: fetch_issued_def split: prod.splits option.splits)

lemma saveTimeEntry_effects:
  "effects (saveTimeEntry env (Some u) entry st) =
     effects st @ Command (save_command env u entry) #
       (case gw_command env (save_command env u entry) of
          Some err \<Rightarrow> [ConsoleError ''Error saving time entry:'' err,
                        ToastError ''Failed to save time entry'']
        | None \<Rightarrow> ToastSuccess (save_toast entry) # fetch_issued env u (currentWeek st))"
  by (simp add: saveTimeEntry_def Let_def fetchData_effects emit_def split: option.splits)

lemma saveTimeEntry_commands:
  "commands (effects (saveTimeEntry env (Some u) entry st))
     = commands (effects st) @ [save_command env u entry]"
  by (simp add: saveTimeEntry_effects commands_append commands_fetch_issued split: option.splits)

lemma foldl_add_hours:
  "foldl (\<lambda>total entry. num_add total (te_hours entry)) a xs = foldl num_add a (map te_hours xs)"
  by (induction xs arbitrary: a) simp_all

lemma apply_values_other:
  "k \<notin> fst ` set vs \<Longrightarrow> apply_values vs row k = row k"
  by (induction vs row rule: apply_values.induct) (auto split: option.splits)

lemma apply_values_sent:
  "distinct (map fst vs) \<Longrightarrow> map_of vs k = Some v \<Longrightarrow>
     apply_values vs row k = (case wire v of Some w \<Rightarrow> Some w | None \<Rightarrow> row k)"
proof (induction vs row rule: apply_values.induct)
  case (1 row)
  then show ?case by simp
next
  case (2 k' v' vs row)
  show ?case
  proof (cases "k' = k")
    case True
    with 2 have "k \<notin> fst ` set vs" and "v' = v" by auto
    then show ?thesis using True
      by (simp add: apply_values_other split: option.splits)
  next
    case False
    with 2 show ?thesis by (simp split: option.splits)
  qed
qed

lemma or_null_wire: "wire (or_null x) = Some (or_null x)"
  by (simp add: or_null_def split: nullable_str.splits)

lemma stored_task_id:
  "apply_values (values_of (save_command env u entry)) row ''task_id''
     = Some (or_null (pe_task_id entry))"
proof -
  have d: "distinct (map fst (values_of (save_command env u entry)))"
    by (simp add: save_command_def Let_def)
  have m: "map_of (values_of (save_command env u entry)) ''task_id''
             = Some (or_null (pe_task_id entry))"
    by (simp add: save_command_def Let_def)
  show ?thesis
    by (simp add: apply_values_sent [OF d m] or_null_wire)
qed

lemma saveTimeEntry_failed:
  assumes "gw_command env (save_command env u entry) = Some err"
  shows "saveTimeEntry env (Some u) entry st
           = st\<lparr>effects := effects st @
                  [Command (save_command env u entry),
                   ConsoleError ''Error saving time entry:'' err,
                   ToastError ''Failed to save time entry'']\<rparr>"
  using assms by (simp add: saveTimeEntry_def Let_def emit_def)

lemma saveTimeEntry_done:
  assumes "gw_command env (save_command env u entry) = None"
  shows "saveTimeEntry env (Some u) entry st
           = fetchData env (Some u)
               (st\<lparr>effects := effects st @
                      [Command (save_command env u entry), ToastSuccess (save_toast entry)],
                    editingEntry := None, newEntry := None\<rparr>)"
  using assms by (simp add: saveTimeEntry_def Let_def emit_def)

lemma deleteTimeEntry_failed:
  assumes "gw_command env (Delete ''time_entries'' i) = Some err"
  shows "deleteTimeEntry env usr i st
           = st\<lparr>effects := effects st @
                  [Command (Delete ''time_entries'' i),
                   ConsoleError ''Error deleting time entry:'' err,
                   ToastError ''Failed to delete time entry'']\<rparr>"
  using assms by (simp add: deleteTimeEntry_def Let_def emit_def)

lemma deleteTimeEntry_done:
  assumes "gw_command env (Delete ''time_entries'' i) = None"
  shows "deleteTimeEntry env usr i st
           = fetchData env usr
               (st\<lparr>effects := effects st @
                      [Command (Delete ''time_entries'' i), ToastSuccess ''Time entry deleted'']\<rparr>)"
  using assms by (simp add: deleteTimeEntry_def Let_def emit_def)

lemma fetchData_refreshes:
  assumes "gw_projects env = (ps, None)" and "gw_tasks env = (ts, None)"
    and "gw_entries env (u_id u)
           (format_ymd env (weekStart (date_defaults env) (currentWeek st)))
           (format_ymd env (weekEnd (date_defaults env) (currentWeek st))) = (es, None)"
  shows "projects (fetchData env (Some u) st) = or_empty ps
         \<and> tasks (fetchData env (Some u) st) = or_empty ts
         \<and> timeEntries (fetchData env (Some u) st) = or_empty es
         \<and> loading (fetchData env (Some u) st) = False"
  using assms by (simp add: fetchData_def Let_def emit_def)

lemma save_command_update:
  assumes "truthy (pe_id entry)"
  shows "save_command env u entry =
     Update ''time_entries''
       [(''project_id'', field_val (pe_project_id entry)),
        (''task_id'', or_null (pe_task_id entry)),
        (''start_time'', field_val (pe_start_time entry)),
        (''end_time'', field_val (pe_end_time entry)),
        (''hours'', JNum (calculateHours (tz_base env)
                      (interpolate (pe_start_time entry)) (interpolate (pe_end_time entry)))),
        (''description'', field_val (pe_description entry)),
        (''updated_at'', JStr (now_iso env))]
       (interpolate (pe_id entry))"
  using assms by (simp add: save_command_def Let_def)

lemma NewEntryForm_blocks_empty_project:
  "ne_project_id entry = [] \<Longrightarrow> NewEntryForm_save env usr entry st = st"
  by (simp add: NewEntryForm_save_def truthy_def)

lemma TimeEntryCard_sends_empty_project:
  assumes "te_id entry \<noteq> []"
  shows "commands (effects (TimeEntryCard_save env (Some u) entry (select_project [] formData) st))
           = commands (effects st) @
             [Update ''time_entries''
                [(''project_id'', JStr []), (''task_id'', JNull),
                 (''start_time'', JStr (fd_start_time formData)),
                 (''end_time'', JStr (fd_end_time formData)),
                 (''hours'', JNum (calculateHours (tz_base env) (fd_start_time formData)
                                    (fd_end_time formData))),
                 (''description'', JStr (fd_description formData)),
                 (''updated_at'', JStr (now_iso env))]
                (te_id entry)]"
proof -
  have "truthy (pe_id (spread entry (select_project [] formData)))"
    using assms by (simp add: spread_def truthy_def)
  then show ?thesis
    unfolding TimeEntryCard_save_def saveTimeEntry_commands
    by (simp add: save_command_update)
      (simp add: spread_def select_project_def field_val_def or_null_def interpolate_def)
qed

text \<open>
  C3. For every date \<open>d\<close> and every list of fetched entries, the total of the day is the
  sum, added up from zero in the order of the list, of \<open>hours\<close> over the entries whose
  \<open>date\<close> equals the \<open>yyyy-MM-dd\<close> text of \<open>d\<close>; an entry of another date contributes
  nothing, wherever it stands in the list.
\<close>

theorem total_hours_is_sum_of_matching_entries:
  "getTotalHoursForDay env st d
     = foldl num_add (Num 0)
         (map te_hours (filter (\<lambda>e. te_date e = format_ymd env d) (timeEntries st)))
   \<and> (te_date e \<noteq> format_ymd env d \<longrightarrow>
        getTotalHoursForDay env (st\<lparr>timeEntries := xs @ e # ys\<rparr>) d
          = getTotalHoursForDay env (st\<lparr>timeEntries := xs @ ys\<rparr>) d)"
  by (simp add: getTotalHoursForDay_def getEntriesForDay_def foldl_add_hours)

theorem total_hours_is_sum_of_matching_entries_witness:
  "getTotalHoursForDay env_ok st_tenths 1793534400000
     = Num (5404319552844596 / 18014398509481984)"
proof -
  let ?a = "entry1\<lparr>te_id := ''e3'', te_hours := Num (3602879701896397 / 36028797018963968)\<rparr>"
  let ?b = "entry1\<lparr>te_id := ''e4'', te_hours := Num (3602879701896397 / 18014398509481984)\<rparr>"
  have day: "format_ymd env_ok 1793534400000 = ''2026-11-01''"
    by (simp add: env_ok_def demo_format_def ms_per_day_def)
  have other: "te_date entry0 \<noteq> format_ymd env_ok 1793534400000"
    unfolding day by (simp add: entry0_def)
  have f1: "fl (3602879701896397 / 36028797018963968) = 3602879701896397 / 36028797018963968"
    by code_simp
  have f2: "fl (3602879701896397 / 36028797018963968 + 3602879701896397 / 18014398509481984)
              = 5404319552844596 / 18014398509481984"
    by code_simp
  have "num_add (Num 0) (Num (3602879701896397 / 36028797018963968))
          = Num (3602879701896397 / 36028797018963968)"
    using to_double_small [of "0 + 3602879701896397 / 36028797018963968"]
    by (simp add: f1)
  moreover have "num_add (Num (3602879701896397 / 36028797018963968))
                   (Num (3602879701896397 / 18014398509481984))
                 = Num (5404319552844596 / 18014398509481984)"
    using to_double_small
      [of "3602879701896397 / 36028797018963968 + 3602879701896397 / 18014398509481984"]
    unfolding num_add.simps f2 by simp
  ultimately have sum: "num_add (num_add (Num 0) (Num (3602879701896397 / 36028797018963968)))
               (Num (3602879701896397 / 18014398509481984))
             = Num (5404319552844596 / 18014398509481984)"
    by (simp only:)
  from other total_hours_is_sum_of_matching_entries
    [of env_ok "st_tenths" 1793534400000 entry0 "[?a]" "[?b]"]
  have "getTotalHoursForDay env_ok (st_tenths\<lparr>timeEntries := [?a, entry0, ?b]\<rparr>) 1793534400000
          = getTotalHoursForDay env_ok (st_tenths\<lparr>timeEntries := [?a, ?b]\<rparr>) 1793534400000"
    by simp
  moreover have "st_tenths\<lparr>timeEntries := [?a, entry0, ?b]\<rparr> = st_tenths"
    by (simp add: st_tenths_def)
  moreover have "getTotalHoursForDay env_ok (st_tenths\<lparr>timeEntries := [?a, ?b]\<rparr>) 1793534400000
          = num_add (num_add (Num 0) (Num (3602879701896397 / 36028797018963968)))
               (Num (3602879701896397 / 18014398509481984))"
    unfolding getTotalHoursForDay_def getEntriesForDay_def Let_def day
    by (simp add: entry1_def)
  ultimately show ?thesis
    by (simp only: sum)
qed

text \<open>
  C5. The edit form submits a save whose \<open>project_id\<close> is the empty string: choosing
  \<open>Select Project\<close> on the card of the stored entry \<open>e1\<close> and saving sends an update of
  that row with \<open>project_id = ''\<close>. (The new-entry form cannot: see
  \<open>NewEntryForm_blocks_empty_project\<close>.)
\<close>

theorem edit_form_saves_empty_project:
  "commands (effects (TimeEntryCard_save env_ok (Some user0) entry0
                        (select_project [] (initial_formData entry0)) st0))
     = [Update ''time_entries''
          [(''project_id'', JStr []), (''task_id'', JNull),
           (''start_time'', JStr ''09:00''), (''end_time'', JStr ''10:30''),
           (''hours'', JNum (Num (3 / 2))), (''description'', JStr ''standup''),
           (''updated_at'', JStr ''2026-11-01T12:00:00.000Z'')] ''e1'']"
proof -
  have h: "calculateHours 946681200000 ''09:00'' ''10:30'' = Num (3 / 2)"
    using calculateHours_hhmm [of 9 0 10 30 946681200000]
    by (simp add: hhmm_1030 hhmm_0900 hours_between_def fl_half_examples)
  have i: "te_id entry0 \<noteq> []"
    by (simp add: entry0_def)
  show ?thesis
    unfolding TimeEntryCard_sends_empty_project [OF i]
    by (simp add: st0_def initial_formData_def entry0_def env_ok_def h)
qed

text \<open>
  C7. For \<open>HH:MM\<close> times with \<open>end_time \<le> start_time\<close> the save is not rejected: the
  one write of the call is sent, it carries the computed duration (the double nearest to
  the minutes between the times over 60), which is zero or negative, and when the gateway
  accepts it the call goes on as any successful save.
\<close>

theorem nonpositive_duration_is_written:
  assumes "pe_start_time entry = Some (hhmm h1 m1)" and "pe_end_time entry = Some (hhmm h2 m2)"
    and "h1 < 24" and "m1 < 60" and "h2 < 24" and "m2 < 60"
    and "h2 * 60 + m2 \<le> h1 * 60 + m1"
  shows "map_of (values_of (save_command env u entry)) ''hours''
           = Some (JNum (Num (fl ((of_nat (h2 * 60 + m2) - of_nat (h1 * 60 + m1)) / 60))))
         \<and> fl ((of_nat (h2 * 60 + m2) - of_nat (h1 * 60 + m1)) / 60) \<le> 0
         \<and> (of_nat (h2 * 60 + m2) - of_nat (h1 * 60 + m1)) / 60 \<le> (0 :: rat)
         \<and> commands (effects (saveTimeEntry env (Some u) entry st))
             = commands (effects st) @ [save_command env u entry]
         \<and> (gw_command env (save_command env u entry) = None \<longrightarrow>
              effects (saveTimeEntry env (Some u) entry st)
                = effects st @ [Command (save_command env u entry), ToastSuccess (save_toast entry)]
                    @ fetch_issued env u (currentWeek st))"
proof (intro conjI impI)
  have hrs: "calculateHours (tz_base env) (interpolate (pe_start_time entry))
               (interpolate (pe_end_time entry))
             = Num (fl ((of_nat (h2 * 60 + m2) - of_nat (h1 * 60 + m1)) / 60))"
    using assms by (simp add: interpolate_def calculateHours_hhmm hours_between_def)
  show "map_of (values_of (save_command env u entry)) ''hours''
           = Some (JNum (Num (fl ((of_nat (h2 * 60 + m2) - of_nat (h1 * 60 + m1)) / 60))))"
    unfolding save_command_def Let_def hrs by simp
  have "(of_nat (h2 * 60 + m2) :: rat) \<le> of_nat (h1 * 60 + m1)"
    using assms(7) by (simp only: of_nat_le_iff)
  then show le: "(of_nat (h2 * 60 + m2) - of_nat (h1 * 60 + m1)) / 60 \<le> (0 :: rat)"
    by simp
  show "fl ((of_nat (h2 * 60 + m2) - of_nat (h1 * 60 + m1)) / 60) \<le> 0"
    using le by (rule fl_nonpos)
  show "commands (effects (saveTimeEntry env (Some u) entry st))
             = commands (effects st) @ [save_command env u entry]"
    by (rule saveTimeEntry_commands)
next
  assume "gw_command env (save_command env u entry) = None"
  then show "effects (saveTimeEntry env (Some u) entry st)
                = effects st @ [Command (save_command env u entry), ToastSuccess (save_toast entry)]
                    @ fetch_issued env u (currentWeek st)"
    by (simp add: saveTimeEntry_effects)
qed

theorem nonpositive_duration_is_written_witness:
  "map_of (values_of (save_command env_ok user0 create0)) ''hours'' = Some (JNum (Num (- 1)))
   \<and> commands (effects (saveTimeEntry env_ok (Some user0) create0 st0))
       = [save_command env_ok user0 create0]"
proof -
  have s: "pe_start_time create0 = Some (hhmm 10 0)"
    by (simp add: create0_def new_entry_object_def hhmm_1000)
  have "hhmm 9 0 = ''09:00''" by (rule hhmm_0900)
  then have e: "pe_end_time create0 = Some (hhmm 9 0)"
    by (simp add: create0_def new_entry_object_def)
  have "effects st0 = []" by (simp add: st0_def)
  with nonpositive_duration_is_written [OF s e, of env_ok user0 st0]
  show ?thesis by (simp add: fl_half_examples)
qed

text \<open>
  C8. The update of an existing entry (an entry with an id) is the one write of the call;
  its columns are \<open>project_id\<close>, \<open>task_id\<close>, \<open>start_time\<close>, \<open>end_time\<close>, \<open>hours\<close>,
  \<open>description\<close> and \<open>updated_at\<close>, never \<open>user_id\<close> or \<open>date\<close>, and these two columns
  of the stored row are what they were. For a submitted project \<open>p\<close>, times
  \<open>HH:MM\<close>, description \<open>d\<close> and task (an id, or none) the write carries exactly these
  values and the duration recomputed from the two times, and the stored row takes them.
\<close>

theorem update_keeps_user_and_date:
  "(truthy (pe_id entry) \<longrightarrow>
      commands (effects (saveTimeEntry env (Some u) entry st))
        = commands (effects st) @ [save_command env u entry]
      \<and> save_command env u entry
          = Update ''time_entries'' (values_of (save_command env u entry))
              (interpolate (pe_id entry))
      \<and> map fst (values_of (save_command env u entry))
          = [''project_id'', ''task_id'', ''start_time'', ''end_time'', ''hours'',
             ''description'', ''updated_at'']
      \<and> map_of (values_of (save_command env u entry)) ''user_id'' = None
      \<and> map_of (values_of (save_command env u entry)) ''date'' = None
      \<and> apply_values (values_of (save_command env u entry)) row ''user_id'' = row ''user_id''
      \<and> apply_values (values_of (save_command env u entry)) row ''date'' = row ''date'')
   \<and> (pe_id entry = Some i \<and> i \<noteq> [] \<and> pe_project_id entry = Some p
        \<and> pe_start_time entry = Some (hhmm h1 m1) \<and> pe_end_time entry = Some (hhmm h2 m2)
        \<and> pe_description entry = Some d \<and> h1 < 24 \<and> m1 < 60 \<and> h2 < 24 \<and> m2 < 60
        \<and> (pe_task_id entry = Str t \<and> t \<noteq> [] \<and> tv = JStr t
            \<or> pe_task_id entry \<in> {Undefined, Null, Str []} \<and> tv = JNull) \<longrightarrow>
      save_command env u entry
        = Update ''time_entries''
            [(''project_id'', JStr p), (''task_id'', tv),
             (''start_time'', JStr (hhmm h1 m1)), (''end_time'', JStr (hhmm h2 m2)),
             (''hours'', JNum (Num (fl ((of_nat (h2 * 60 + m2) - of_nat (h1 * 60 + m1)) / 60)))),
             (''description'', JStr d), (''updated_at'', JStr (now_iso env))] i
      \<and> apply_values (values_of (save_command env u entry)) row ''project_id'' = Some (JStr p)
      \<and> apply_values (values_of (save_command env u entry)) row ''task_id'' = Some tv
      \<and> apply_values (values_of (save_command env u entry)) row ''start_time''
          = Some (JStr (hhmm h1 m1))
      \<and> apply_values (values_of (save_command env u entry)) row ''end_time''
          = Some (JStr (hhmm h2 m2))
      \<and> apply_values (values_of (save_command env u entry)) row ''hours''
          = Some (JNum (Num (fl ((of_nat (h2 * 60 + m2) - of_nat (h1 * 60 + m1)) / 60))))
      \<and> apply_values (values_of (save_command env u entry)) row ''description'' = Some (JStr d)
      \<and> apply_values (values_of (save_command env u entry)) row ''user_id'' = row ''user_id''
      \<and> apply_values (values_of (save_command env u entry)) row ''date'' = row ''date'')"
proof (intro conjI impI)
  assume t: "truthy (pe_id entry)"
  note cmd = save_command_update [OF t, of env u]
  show keys: "map fst (values_of (save_command env u entry))
             = [''project_id'', ''task_id'', ''start_time'', ''end_time'', ''hours'',
                ''description'', ''updated_at'']"
    by (simp add: cmd)
  have not_in: "''user_id'' \<notin> fst ` set (values_of (save_command env u entry))"
      "''date'' \<notin> fst ` set (values_of (save_command env u entry))"
    unfolding set_map [symmetric] keys by simp_all
  show "commands (effects (saveTimeEntry env (Some u) entry st))
           = commands (effects st) @ [save_command env u entry]"
    by (rule saveTimeEntry_commands)
  show "save_command env u entry
             = Update ''time_entries'' (values_of (save_command env u entry))
                 (interpolate (pe_id entry))"
    by (simp add: cmd)
  show "map_of (values_of (save_command env u entry)) ''user_id'' = None"
    using not_in(1) by (simp add: map_of_eq_None_iff)
  show "map_of (values_of (save_command env u entry)) ''date'' = None"
    using not_in(2) by (simp add: map_of_eq_None_iff)
  show "apply_values (values_of (save_command env u entry)) row ''user_id'' = row ''user_id''"
    using not_in(1) by (rule apply_values_other)
  show "apply_values (values_of (save_command env u entry)) row ''date'' = row ''date''"
    using not_in(2) by (rule apply_values_other)
next
  assume a: "pe_id entry = Some i \<and> i \<noteq> [] \<and> pe_project_id entry = Some p
        \<and> pe_start_time entry = Some (hhmm h1 m1) \<and> pe_end_time entry = Some (hhmm h2 m2)
        \<and> pe_description entry = Some d \<and> h1 < 24 \<and> m1 < 60 \<and> h2 < 24 \<and> m2 < 60
        \<and> (pe_task_id entry = Str t \<and> t \<noteq> [] \<and> tv = JStr t
            \<or> pe_task_id entry \<in> {Undefined, Null, Str []} \<and> tv = JNull)"
  then have t: "truthy (pe_id entry)"
    by (simp add: truthy_def)
  have hrs: "calculateHours (tz_base env) (interpolate (pe_start_time entry))
               (interpolate (pe_end_time entry))
             = Num (fl ((of_nat (h2 * 60 + m2) - of_nat (h1 * 60 + m1)) / 60))"
    using a by (simp add: interpolate_def calculateHours_hhmm hours_between_def)
  have task: "or_null (pe_task_id entry) = tv"
    using a by (auto simp add: or_null_def)
  show cmd: "save_command env u entry
        = Update ''time_entries''
            [(''project_id'', JStr p), (''task_id'', tv),
             (''start_time'', JStr (hhmm h1 m1)), (''end_time'', JStr (hhmm h2 m2)),
             (''hours'', JNum (Num (fl ((of_nat (h2 * 60 + m2) - of_nat (h1 * 60 + m1)) / 60)))),
             (''description'', JStr d), (''updated_at'', JStr (now_iso env))] i"
    unfolding save_command_update [OF t] hrs task
    using a by (simp add: field_val_def interpolate_def)
  have tvw: "wire tv = Some tv"
    using a by auto
  have d: "distinct (map fst (values_of (save_command env u entry)))"
    by (simp add: cmd)
  show "apply_values (values_of (save_command env u entry)) row ''project_id'' = Some (JStr p)"
    by (subst apply_values_sent [OF d, of _ "JStr p"]) (simp_all add: cmd)
  show "apply_values (values_of (save_command env u entry)) row ''task_id'' = Some tv"
    by (subst apply_values_sent [OF d, of _ tv]) (simp_all add: cmd tvw)
  show "apply_values (values_of (save_command env u entry)) row ''start_time''
          = Some (JStr (hhmm h1 m1))"
    by (subst apply_values_sent [OF d, of _ "JStr (hhmm h1 m1)"]) (simp_all add: cmd)
  show "apply_values (values_of (save_command env u entry)) row ''end_time''
          = Some (JStr (hhmm h2 m2))"
    by (subst apply_values_sent [OF d, of _ "JStr (hhmm h2 m2)"]) (simp_all add: cmd)
  show "apply_values (values_of (save_command env u entry)) row ''hours''
          = Some (JNum (Num (fl ((of_nat (h2 * 60 + m2) - of_nat (h1 * 60 + m1)) / 60))))"
    by (subst apply_values_sent [OF d, of _
          "JNum (Num (fl ((of_nat (h2 * 60 + m2) - of_nat (h1 * 60 + m1)) / 60)))"])
      (simp_all add: cmd)
  show "apply_values (values_of (save_command env u entry)) row ''description'' = Some (JStr d)"
    by (subst apply_values_sent [OF d, of _ "JStr d"]) (simp_all add: cmd)
  have not_in: "''user_id'' \<notin> fst ` set (values_of (save_command env u entry))"
      "''date'' \<notin> fst ` set (values_of (save_command env u entry))"
    by (simp_all add: cmd)
  show "apply_values (values_of (save_command env u entry)) row ''user_id'' = row ''user_id''"
    using not_in(1) by (rule apply_values_other)
  show "apply_values (values_of (save_command env u entry)) row ''date'' = row ''date''"
    using not_in(2) by (rule apply_values_other)
qed

theorem update_keeps_user_and_date_witness:
  "save_command env_ok user0 update1
     = Update ''time_entries''
         [(''project_id'', JStr ''p2''), (''task_id'', JNull),
          (''start_time'', JStr ''11:00''), (''end_time'', JStr ''12:15''),
          (''hours'', JNum (Num (5 / 4))), (''description'', JStr ''review''),
          (''updated_at'', JStr ''2026-11-01T12:00:00.000Z'')] ''e1''
   \<and> apply_values (values_of (save_command env_ok user0 update1)) row0 ''project_id''
       = Some (JStr ''p2'')
   \<and> apply_values (values_of (save_command env_ok user0 update1)) row0 ''hours''
       = Some (JNum (Num (5 / 4)))
   \<and> apply_values (values_of (save_command env_ok user0 update1)) row0 ''user_id''
       = Some (JStr ''u1'')
   \<and> apply_values (values_of (save_command env_ok user0 update1)) row0 ''date''
       = Some (JStr ''2026-10-26'')
   \<and> commands (effects (saveTimeEntry env_ok (Some user0) update1 st0))
       = [save_command env_ok user0 update1]"
proof -
  have r: "hhmm 11 0 = ''11:00''" "hhmm 12 15 = ''12:15''"
    by code_simp+
  have f: "fl (5 / 4) = 5 / 4"
    by code_simp
  have x: "(of_nat (12 * 60 + 15) - of_nat (11 * 60 + 0)) / 60 = (5 / 4 :: rat)"
    by simp
  have t: "truthy (pe_id update1)"
    by (simp add: update1_def spread_def entry0_def truthy_def)
  have a: "pe_id update1 = Some ''e1'' \<and> ''e1'' \<noteq> [] \<and> pe_project_id update1 = Some ''p2''
        \<and> pe_start_time update1 = Some (hhmm 11 0) \<and> pe_end_time update1 = Some (hhmm 12 15)
        \<and> pe_description update1 = Some ''review''
        \<and> (11::nat) < 24 \<and> (0::nat) < 60 \<and> (12::nat) < 24 \<and> (15::nat) < 60
        \<and> (pe_task_id update1 = Str ''t'' \<and> ''t'' \<noteq> [] \<and> JNull = JStr ''t''
            \<or> pe_task_id update1 \<in> {Undefined, Null, Str []} \<and> JNull = JNull)"
    by (simp add: update1_def spread_def entry0_def r)
  have e: "effects st0 = []"
    by (simp add: st0_def)
  have n: "now_iso env_ok = ''2026-11-01T12:00:00.000Z''"
    by (simp add: env_ok_def)
  note inst = update_keeps_user_and_date
    [of update1 env_ok user0 st0 row0 "''e1''" "''p2''" 11 0 12 15 "''review''" "''t''" JNull]
  note frame = mp [OF conjunct1 [OF inst] t]
  note sent = mp [OF conjunct2 [OF inst] a]
  from frame have c: "commands (effects (saveTimeEntry env_ok (Some user0) update1 st0))
                        = [save_command env_ok user0 update1]"
    by (simp add: e)
  from sent [unfolded x f r n] c show ?thesis
    by (simp add: row0_def)
qed

text \<open>
  C9, as amended. For a signed-in user: a save or a delete the gateway accepts is followed
  by a re-fetch (\<open>fetchData\<close> runs on the state, starting with the read of the
  projects); one the gateway refuses leaves the state as it was but for the messages, and
  the message tells a save (\<open>Failed to save time entry\<close>, for a create and an update
  alike) from a delete (\<open>Failed to delete time entry\<close>).
\<close>

theorem write_outcomes:
  "(gw_command env (save_command env u entry) = None \<longrightarrow>
      saveTimeEntry env (Some u) entry st
        = fetchData env (Some u)
            (st\<lparr>effects := effects st @
                   [Command (save_command env u entry), ToastSuccess (save_toast entry)],
                 editingEntry := None, newEntry := None\<rparr>)
      \<and> effects (saveTimeEntry env (Some u) entry st)
        = effects st @ [Command (save_command env u entry), ToastSuccess (save_toast entry)]
            @ fetch_issued env u (currentWeek st))
   \<and> (gw_command env (save_command env u entry) = Some err \<longrightarrow>
      saveTimeEntry env (Some u) entry st
        = st\<lparr>effects := effects st @
               [Command (save_command env u entry),
                ConsoleError ''Error saving time entry:'' err,
                ToastError ''Failed to save time entry'']\<rparr>)
   \<and> (gw_command env (Delete ''time_entries'' i) = None \<longrightarrow>
      deleteTimeEntry env (Some u) i st
        = fetchData env (Some u)
            (st\<lparr>effects := effects st @
                   [Command (Delete ''time_entries'' i), ToastSuccess ''Time entry deleted'']\<rparr>)
      \<and> effects (deleteTimeEntry env (Some u) i st)
        = effects st @ [Command (Delete ''time_entries'' i), ToastSuccess ''Time entry deleted'']
            @ fetch_issued env u (currentWeek st))
   \<and> (gw_command env (Delete ''time_entries'' i) = Some err \<longrightarrow>
      deleteTimeEntry env (Some u) i st
        = st\<lparr>effects := effects st @
               [Command (Delete ''time_entries'' i),
                ConsoleError ''Error deleting time entry:'' err,
                ToastError ''Failed to delete time entry'']\<rparr>)
   \<and> hd (fetch_issued env u (currentWeek st)) = Query (SelectAll ''projects'' ''name'')
   \<and> ''Failed to save time entry'' \<noteq> ''Failed to delete time entry''"
proof (intro conjI impI)
  assume ok: "gw_command env (save_command env u entry) = None"
  show "saveTimeEntry env (Some u) entry st
        = fetchData env (Some u)
            (st\<lparr>effects := effects st @
                   [Command (save_command env u entry), ToastSuccess (save_toast entry)],
                 editingEntry := None, newEntry := None\<rparr>)"
    by (rule saveTimeEntry_done [OF ok])
  show "effects (saveTimeEntry env (Some u) entry st)
        = effects st @ [Command (save_command env u entry), ToastSuccess (save_toast entry)]
            @ fetch_issued env u (currentWeek st)"
    using ok by (simp add: saveTimeEntry_effects)
next
  assume "gw_command env (save_command env u entry) = Some err"
  then show "saveTimeEntry env (Some u) entry st
        = st\<lparr>effects := effects st @
               [Command (save_command env u entry),
                ConsoleError ''Error saving time entry:'' err,
                ToastError ''Failed to save time entry'']\<rparr>"
    by (rule saveTimeEntry_failed)
next
  assume ok: "gw_command env (Delete ''time_entries'' i) = None"
  show "deleteTimeEntry env (Some u) i st
        = fetchData env (Some u)
            (st\<lparr>effects := effects st @
                   [Command (Delete ''time_entries'' i), ToastSuccess ''Time entry deleted'']\<rparr>)"
    by (rule deleteTimeEntry_done [OF ok])
  then show "effects (deleteTimeEntry env (Some u) i st)
        = effects st @ [Command (Delete ''time_entries'' i), ToastSuccess ''Time entry deleted'']
            @ fetch_issued env u (currentWeek st)"
    by (simp add: fetchData_effects)
next
  assume "gw_command env (Delete ''time_entries'' i) = Some err"
  then show "deleteTimeEntry env (Some u) i st
        = st\<lparr>effects := effects st @
               [Command (Delete ''time_entries'' i),
                ConsoleError ''Error deleting time entry:'' err,
                ToastError ''Failed to delete time entry'']\<rparr>"
    by (rule deleteTimeEntry_failed)
next
  show "hd (fetch_issued env u (currentWeek st)) = Query (SelectAll ''projects'' ''name'')"
    by (simp add: fetch_issued_def)
  show "''Failed to save time entry'' \<noteq> ''Failed to delete time entry''"
    by simp
qed

theorem write_outcomes_witness:
  "saveTimeEntry env_fail (Some user0) create0 st0
     = st0\<lparr>effects := [Command (save_command env_fail user0 create0),
                        ConsoleError ''Error saving time entry:'' ''denied'',
                        ToastError ''Failed to save time entry'']\<rparr>
   \<and> deleteTimeEntry env_fail (Some user0) ''e1'' st0
     = st0\<lparr>effects := [Command (Delete ''time_entries'' ''e1''),
                        ConsoleError ''Error deleting time entry:'' ''denied'',
                        ToastError ''Failed to delete time entry'']\<rparr>
   \<and> effects (saveTimeEntry env_ok (Some user0) create0 st0)
     = [Command (save_command env_ok user0 create0), ToastSuccess ''Time entry added'']
         @ fetch_issued env_ok user0 (currentWeek st0)
   \<and> effects (deleteTimeEntry env_ok (Some user0) ''e1'' st0)
     = [Command (Delete ''time_entries'' ''e1''), ToastSuccess ''Time entry deleted'']
         @ fetch_issued env_ok user0 (currentWeek st0)"
proof -
  have f: "gw_command env_fail c = Some ''denied''" for c
    by (simp add: env_fail_def)
  have k: "gw_command env_ok c = None" for c
    by (simp add: env_ok_def)
  have e: "effects st0 = []"
    by (simp add: st0_def)
  have t: "save_toast create0 = ''Time entry added''"
    by (simp add: save_toast_def create0_def new_entry_object_def truthy_def)
  from write_outcomes [of env_fail user0 create0 st0 "''denied''" "''e1''"]
    write_outcomes [of env_ok user0 create0 st0 "''denied''" "''e1''"]
  show ?thesis
    by (simp add: f k e t fetchData_effects)
qed

text \<open>
  C9, as stated, fails: a refused create and a refused update send different writes and
  surface the same console message and the same notification.
\<close>

theorem create_and_update_failures_share_signal:
  "commands (effects (saveTimeEntry env_fail (Some user0) create0 st0))
     = [Insert ''time_entries''
          [(''user_id'', JStr ''u1''), (''project_id'', JStr ''p1''), (''task_id'', JNull),
           (''date'', JStr ''2026-11-01''), (''start_time'', JStr ''10:00''),
           (''end_time'', JStr ''09:00''), (''hours'', JNum (Num (- 1))),
           (''description'', JStr [])]]
   \<and> commands (effects (saveTimeEntry env_fail (Some user0) update0 st0))
     = [Update ''time_entries''
          [(''project_id'', JStr ''p1''), (''task_id'', JStr ''t1''),
           (''start_time'', JStr ''09:00''), (''end_time'', JStr ''10:30''),
           (''hours'', JNum (Num (3 / 2))), (''description'', JStr ''standup''),
           (''updated_at'', JStr ''2026-11-01T12:00:00.000Z'')] ''e1'']
   \<and> failure_signals (effects (saveTimeEntry env_fail (Some user0) create0 st0))
     = [ConsoleError ''Error saving time entry:'' ''denied'',
        ToastError ''Failed to save time entry'']
   \<and> failure_signals (effects (saveTimeEntry env_fail (Some user0) update0 st0))
     = [ConsoleError ''Error saving time entry:'' ''denied'',
        ToastError ''Failed to save time entry'']"
proof -
  have f: "gw_command env_fail c = Some ''denied''" for c
    by (simp add: env_fail_def)
  have e: "effects st0 = []"
    by (simp add: st0_def)
  have h1: "calculateHours 946681200000 ''10:00'' ''09:00'' = Num (- 1)"
    using calculateHours_hhmm [of 10 0 9 0 946681200000]
    by (simp add: hhmm_1000 hhmm_0900 hours_between_def fl_half_examples)
  have h2: "calculateHours 946681200000 ''09:00'' ''10:30'' = Num (3 / 2)"
    using calculateHours_hhmm [of 9 0 10 30 946681200000]
    by (simp add: hhmm_1030 hhmm_0900 hours_between_def fl_half_examples)
  have c: "save_command env_fail user0 create0
     = Insert ''time_entries''
          [(''user_id'', JStr ''u1''), (''project_id'', JStr ''p1''), (''task_id'', JNull),
           (''date'', JStr ''2026-11-01''), (''start_time'', JStr ''10:00''),
           (''end_time'', JStr ''09:00''), (''hours'', JNum (Num (- 1))),
           (''description'', JStr [])]"
    unfolding save_command_def Let_def
    by (simp add: create0_def new_entry_object_def env_fail_def env_ok_def user0_def truthy_def
        interpolate_def field_val_def or_null_def or_empty_str_def h1)
  have u: "save_command env_fail user0 update0
     = Update ''time_entries''
          [(''project_id'', JStr ''p1''), (''task_id'', JStr ''t1''),
           (''start_time'', JStr ''09:00''), (''end_time'', JStr ''10:30''),
           (''hours'', JNum (Num (3 / 2))), (''description'', JStr ''standup''),
           (''updated_at'', JStr ''2026-11-01T12:00:00.000Z'')] ''e1''"
    unfolding save_command_def Let_def
    by (simp add: update0_def spread_def initial_formData_def entry0_def env_fail_def env_ok_def
        truthy_def interpolate_def field_val_def or_null_def h2)
  show ?thesis
    by (simp add: saveTimeEntry_effects f e c u)
qed

text \<open>
  C10. The write of a save (create or update) carries \<open>task_id = null\<close> when the
  submitted \<open>task_id\<close> is missing, \<open>null\<close> or the empty string, and the submitted id
  otherwise; the row stores what is sent, so the stored \<open>task_id\<close> is \<open>null\<close> or a
  non-empty id, never the empty string.
\<close>

theorem task_id_never_empty:
  "commands (effects (saveTimeEntry env (Some u) entry st))
     = commands (effects st) @ [save_command env u entry]
   \<and> (case map_of (values_of (save_command env u entry)) ''task_id'' of
        Some JNull \<Rightarrow> pe_task_id entry \<in> {Undefined, Null, Str []}
      | Some (JStr s) \<Rightarrow> s \<noteq> [] \<and> pe_task_id entry = Str s
      | _ \<Rightarrow> False)
   \<and> apply_values (values_of (save_command env u entry)) row ''task_id''
       = map_of (values_of (save_command env u entry)) ''task_id''"
proof (intro conjI)
  show "commands (effects (saveTimeEntry env (Some u) entry st))
     = commands (effects st) @ [save_command env u entry]"
    by (rule saveTimeEntry_commands)
  have sent: "map_of (values_of (save_command env u entry)) ''task_id''
                = Some (or_null (pe_task_id entry))"
    by (simp add: save_command_def Let_def)
  then show "case map_of (values_of (save_command env u entry)) ''task_id'' of
        Some JNull \<Rightarrow> pe_task_id entry \<in> {Undefined, Null, Str []}
      | Some (JStr s) \<Rightarrow> s \<noteq> [] \<and> pe_task_id entry = Str s
      | _ \<Rightarrow> False"
    by (simp add: or_null_def split: nullable_str.splits)
  show "apply_values (values_of (save_command env u entry)) row ''task_id''
       = map_of (values_of (save_command env u entry)) ''task_id''"
    unfolding sent by (rule stored_task_id)
qed

section \<open>Properties of sign-in and navigation\<close>

text \<open>
  C4. The navigation of a signed-in user is decided by the role alone: \<open>user\<close> has time
  tracking and projects; \<open>supervisor\<close> has analytics too; \<open>manager\<close> has analytics and
  user management too.
\<close>

theorem navigation_by_role:
  "map nav_id (navigation (Some u))
     = (case u_role u of
          RoleUser \<Rightarrow> [''timetracking'', ''projects'']
        | RoleSupervisor \<Rightarrow> [''timetracking'', ''projects'', ''analytics'']
        | RoleManager \<Rightarrow> [''timetracking'', ''projects'', ''analytics'', ''management''])
   \<and> navigation (Some u) = navigation (Some (u\<lparr>u_id := i, u_email := e, u_name := n\<rparr>))"
  by (cases "u_role u") (simp_all add: navigation_def)

text \<open>
  C6. When the allow-list lookup delivers no record for the email, \<open>signIn\<close> returns
  \<open>false\<close> with the not-authorized notification, and sends neither a login link nor a
  write of a user record; in every run the lookup is the first thing \<open>signIn\<close> sends.
\<close>

theorem unauthorized_sign_in_is_blocked:
  "(fst (gw_authorized env email) = None \<longrightarrow>
      signIn env email name st
        = (False, st\<lparr>au_loading := False,
                      au_effects := au_effects st @
                        [Query (SelectSingle ''authorized_emails'' ''email'' email),
                         ToastError ''Email not authorized. Please contact your manager.'']\<rparr>))
   \<and> take (Suc (length (au_effects st))) (au_effects (snd (signIn env email name st)))
       = au_effects st @ [Query (SelectSingle ''authorized_emails'' ''email'' email)]"
proof (intro conjI impI)
  assume "fst (gw_authorized env email) = None"
  then show "signIn env email name st
        = (False, st\<lparr>au_loading := False,
                      au_effects := au_effects st @
                        [Query (SelectSingle ''authorized_emails'' ''email'' email),
                         ToastError ''Email not authorized. Please contact your manager.'']\<rparr>)"
    by (cases "gw_authorized env email")
      (simp add: signIn_def not_authorized_def auth_emit_def Let_def split: option.splits)
next
  show "take (Suc (length (au_effects st))) (au_effects (snd (signIn env email name st)))
       = au_effects st @ [Query (SelectSingle ''authorized_emails'' ''email'' email)]"
    by (simp add: signIn_def not_authorized_def sign_in_failed_def auth_emit_def Let_def
        split: prod.splits option.splits)
qed

theorem unauthorized_sign_in_is_blocked_witness:
  "signIn env_ok ''eve@example.org'' None auth0
     = (False, \<lparr>au_user = None, au_loading = False,
                au_effects = [Query (SelectSingle ''authorized_emails'' ''email'' ''eve@example.org''),
                              ToastError ''Email not authorized. Please contact your manager.'']\<rparr>)"
proof -
  have "fst (gw_authorized env_ok ''eve@example.org'') = None"
    by (simp add: env_ok_def)
  with unauthorized_sign_in_is_blocked [of env_ok "''eve@example.org''" None auth0]
  show ?thesis by (simp add: auth0_def)
qed

lemma signIn_authorized_example:
  "signIn env_ok ''ann@example.org'' None auth0
     = (True, \<lparr>au_user = None, au_loading = False,
                au_effects = [Query (SelectSingle ''authorized_emails'' ''email'' ''ann@example.org''),
                              SendOtp ''ann@example.org'',
                              Command (Upsert ''users'' [(''email'', JStr ''ann@example.org''),
                                 (''name'', JStr ''ann''), (''role'', JStr ''user'')]),
                              ToastSuccess ''Check your email for the login link!'']\<rparr>)"
  by (simp add: signIn_def env_ok_def auth0_def auth_emit_def Let_def name_or_local_part_def
      truthy_def)

end
